theory Spec2Isabelle
  imports Main "HOL-Library.AList"
begin

section \<open>JavaScript strings\<close>

text \<open>
  Strings are lists of 8-bit characters. \<open>startsWith\<close> and \<open>str_includes\<close> are the
  methods of \<open>String.prototype\<close> with the same names.
\<close>

definition startsWith :: "string \<Rightarrow> string \<Rightarrow> bool" where
  "startsWith s p = (take (length p) s = p)"

fun str_includes :: "string \<Rightarrow> string \<Rightarrow> bool" where
  "str_includes [] n = (n = [])"
| "str_includes (c # cs) n = (startsWith (c # cs) n \<or> str_includes cs n)"

text \<open>A JavaScript value of type \<open>string | undefined\<close> is truthy when it is a non-empty string.\<close>

definition truthy :: "string option \<Rightarrow> bool" where
  "truthy v = (case v of None \<Rightarrow> False | Some s \<Rightarrow> s \<noteq> [])"

section \<open>Protocol errors (gateway/protocol)\<close>

datatype ErrorCode =
  NOT_LINKED | NOT_PAIRED | AGENT_TIMEOUT | INVALID_REQUEST | UNAVAILABLE
  | UNAUTHORIZED | NOT_FOUND

record ErrorShape =
  code :: ErrorCode
  message :: string
  retryable :: "bool option"
  retryAfterMs :: "int option"

text \<open>
  \<open>errorShape(code, message, opts?)\<close> spreads \<open>opts\<close> into the result. Every caller
  modelled here passes two arguments, so the optional fields stay absent.
\<close>

definition errorShape :: "ErrorCode \<Rightarrow> string \<Rightarrow> ErrorShape" where
  "errorShape c m = \<lparr>code = c, message = m, retryable = None, retryAfterMs = None\<rparr>"

section \<open>Gateway clients (gateway/server-methods/types.ts)\<close>

record ConnectParams =
  role :: "string option"
  scopes :: "string list option"

record GatewayClient =
  connect :: "ConnectParams option"
  connId :: "string option"
  tenantId :: "string option"

section \<open>Method authorization (gateway/method-auth.ts)\<close>

definition ADMIN_SCOPE :: string where "ADMIN_SCOPE = ''operator.admin''"
definition READ_SCOPE :: string where "READ_SCOPE = ''operator.read''"
definition WRITE_SCOPE :: string where "WRITE_SCOPE = ''operator.write''"
definition APPROVALS_SCOPE :: string where "APPROVALS_SCOPE = ''operator.approvals''"
definition PAIRING_SCOPE :: string where "PAIRING_SCOPE = ''operator.pairing''"

definition TENANT_ALLOWED_METHODS :: "string list" where
  "TENANT_ALLOWED_METHODS =
    [''health'',
     ''terminal.spawn'', ''terminal.write'', ''terminal.resize'', ''terminal.close'',
     ''terminal.list'',
     ''tenants.get'', ''tenants.rotate'', ''tenants.backup'', ''tenants.backups.list'',
     ''tenants.restore'', ''tenants.delete'', ''tenants.usage'', ''tenants.quota.status'',
     ''tenants.usage.history'',
     ''config.get'', ''config.set'', ''config.patch'', ''config.schema'',
     ''agents.list'', ''agents.create'', ''agents.update'', ''agents.delete'',
     ''agents.files.list'', ''agents.files.get'', ''agents.files.set'',
     ''sessions.list'', ''sessions.preview'',
     ''cron.list'', ''cron.add'', ''cron.update'', ''cron.remove'', ''cron.status'',
     ''cron.runs'', ''cron.run'',
     ''skills.status'', ''skills.bins'', ''skills.install'', ''skills.update'',
     ''channels.status'', ''channels.start'', ''channels.stop'', ''channels.logout'',
     ''voicewake.get'', ''voicewake.set'',
     ''device.pair.list'', ''device.pair.approve'', ''device.pair.reject'',
     ''device.token.rotate'', ''device.token.revoke'',
     ''node.pair.request'', ''node.pair.list'', ''node.pair.approve'', ''node.pair.reject'',
     ''node.pair.verify'', ''node.rename'', ''node.list'', ''node.describe'', ''node.invoke'']"

definition APPROVAL_METHODS :: "string list" where
  "APPROVAL_METHODS = [''exec.approval.request'', ''exec.approval.resolve'']"

definition NODE_ROLE_METHODS :: "string list" where
  "NODE_ROLE_METHODS = [''node.invoke.result'', ''node.event'', ''skills.bins'']"

definition PAIRING_METHODS :: "string list" where
  "PAIRING_METHODS =
    [''node.pair.request'', ''node.pair.list'', ''node.pair.approve'', ''node.pair.reject'',
     ''node.pair.verify'', ''device.pair.list'', ''device.pair.approve'',
     ''device.pair.reject'', ''device.token.rotate'', ''device.token.revoke'',
     ''node.rename'']"

definition ADMIN_METHOD_PREFIXES :: "string list" where
  "ADMIN_METHOD_PREFIXES = [''exec.approvals.'']"

definition READ_METHODS :: "string list" where
  "READ_METHODS =
    [''health'', ''logs.tail'', ''channels.status'', ''status'', ''usage.status'',
     ''usage.cost'', ''tts.status'', ''tts.providers'', ''models.list'', ''agents.list'',
     ''agent.identity.get'', ''skills.status'', ''voicewake.get'', ''sessions.list'',
     ''sessions.preview'', ''cron.list'', ''cron.status'', ''cron.runs'',
     ''system-presence'', ''last-heartbeat'', ''node.list'', ''node.describe'',
     ''chat.history'', ''terminal.list'', ''tenants.get'', ''tenants.backups.list'',
     ''tenants.usage'', ''tenants.quota.status'', ''tenants.usage.history'']"

definition WRITE_METHODS :: "string list" where
  "WRITE_METHODS =
    [''send'', ''agent'', ''agent.wait'', ''wake'', ''talk.mode'', ''tts.enable'',
     ''tts.disable'', ''tts.convert'', ''tts.setProvider'', ''voicewake.set'',
     ''node.invoke'', ''chat.send'', ''chat.abort'', ''browser.request'',
     ''terminal.spawn'', ''terminal.write'', ''terminal.resize'', ''terminal.close'',
     ''tenants.rotate'', ''tenants.backup'']"

text \<open>
  The result \<open>None\<close> is the source's \<open>null\<close>: the call is authorized. The checks
  come in the source's order; the last two branches of the source return the same error.
\<close>

definition authorizeGatewayMethod :: "string \<Rightarrow> GatewayClient option \<Rightarrow> ErrorShape option" where
  "authorizeGatewayMethod method client =
    (case client of
      None \<Rightarrow> None
    | Some cl \<Rightarrow>
      (case connect cl of
        None \<Rightarrow> None
      | Some conn \<Rightarrow>
        (let r = (case role conn of None \<Rightarrow> ''operator'' | Some x \<Rightarrow> x);
             ss = (case scopes conn of None \<Rightarrow> [] | Some x \<Rightarrow> x)
         in
          if method \<in> set NODE_ROLE_METHODS then
            (if r = ''node'' then None
             else Some (errorShape INVALID_REQUEST (''unauthorized role: '' @ r)))
          else if r = ''node'' then
            Some (errorShape INVALID_REQUEST (''unauthorized role: '' @ r))
          else if r \<noteq> ''operator'' then
            Some (errorShape INVALID_REQUEST (''unauthorized role: '' @ r))
          else if truthy (tenantId cl) \<and> method \<notin> set TENANT_ALLOWED_METHODS then
            Some (errorShape INVALID_REQUEST
              (''method not available for tenant token: '' @ method))
          else if ADMIN_SCOPE \<in> set ss then None
          else if method \<in> set APPROVAL_METHODS \<and> APPROVALS_SCOPE \<notin> set ss then
            Some (errorShape INVALID_REQUEST ''missing scope: operator.approvals'')
          else if method \<in> set PAIRING_METHODS \<and> PAIRING_SCOPE \<notin> set ss then
            Some (errorShape INVALID_REQUEST ''missing scope: operator.pairing'')
          else if method \<in> set READ_METHODS
                  \<and> \<not> (READ_SCOPE \<in> set ss \<or> WRITE_SCOPE \<in> set ss) then
            Some (errorShape INVALID_REQUEST ''missing scope: operator.read'')
          else if method \<in> set WRITE_METHODS \<and> WRITE_SCOPE \<notin> set ss then
            Some (errorShape INVALID_REQUEST ''missing scope: operator.write'')
          else if method \<in> set APPROVAL_METHODS then None
          else if method \<in> set PAIRING_METHODS then None
          else if method \<in> set READ_METHODS then None
          else if method \<in> set WRITE_METHODS then None
          else if list_ex (\<lambda>p. startsWith method p) ADMIN_METHOD_PREFIXES then
            Some (errorShape INVALID_REQUEST ''missing scope: operator.admin'')
          else if truthy (tenantId cl) \<and> method \<in> set TENANT_ALLOWED_METHODS then None
          else if startsWith method ''config.'' \<or> startsWith method ''wizard.''
                  \<or> startsWith method ''update.''
                  \<or> method \<in> set [''channels.logout'', ''agents.create'', ''agents.update'',
                        ''agents.delete'', ''skills.install'', ''skills.update'', ''cron.add'',
                        ''cron.update'', ''cron.remove'', ''cron.run'', ''sessions.patch'',
                        ''sessions.reset'', ''sessions.delete'', ''sessions.compact'']
          then Some (errorShape INVALID_REQUEST ''missing scope: operator.admin'')
          else Some (errorShape INVALID_REQUEST ''missing scope: operator.admin''))))"

section \<open>Terminal sessions (gateway/server-methods/terminal.ts)\<close>

text \<open>
  The PTY handle comes from the sandbox spawner, which is outside this development. It is
  modelled by what the handlers observe: its \<open>pid\<close>, the data \<open>write\<close> has forwarded
  to it (oldest first), and the message of the error that \<open>write\<close> throws, if it throws.
\<close>

record BwrapPtyHandle =
  pid :: nat
  written :: "string list"
  writeThrows :: "string option"

definition pty_write :: "BwrapPtyHandle \<Rightarrow> string \<Rightarrow> string + BwrapPtyHandle" where
  "pty_write p d =
    (case writeThrows p of
      Some msg \<Rightarrow> Inl msg
    | None \<Rightarrow> Inr (p\<lparr>written := written p @ [d]\<rparr>))"

record TerminalSession =
  s_terminalId :: string
  s_tenantId :: string
  s_connId :: string
  s_pty :: BwrapPtyHandle
  s_createdAt :: int
  s_lastActivityAt :: int

text \<open>
  \<open>terminalSessions\<close> is a JavaScript \<open>Map\<close>: an association list in insertion order
  with \<open>map_of\<close> for \<open>get\<close> and \<open>AList.update\<close> for \<open>set\<close>.
\<close>

type_synonym terminalSessions = "(string \<times> TerminalSession) list"

record SessionInfo =
  i_terminalId :: string
  i_tenantId :: string
  i_pid :: nat
  i_createdAt :: int
  i_lastActivityAt :: int

datatype Payload =
  SpawnPayload string nat int int
  | WrittenPayload nat
  | SessionsPayload "SessionInfo list"

text \<open>The arguments of one call of \<open>opts.respond(ok, payload, error)\<close>.\<close>

datatype Response = Response bool "Payload option" "ErrorShape option"

definition getTenantId :: "GatewayClient option \<Rightarrow> string option" where
  "getTenantId client = (case client of None \<Rightarrow> None | Some cl \<Rightarrow> tenantId cl)"

definition hasAdminScope :: "GatewayClient option \<Rightarrow> bool" where
  "hasAdminScope client =
    (let ss = (case client of
                None \<Rightarrow> []
              | Some cl \<Rightarrow>
                (case connect cl of
                  None \<Rightarrow> []
                | Some conn \<Rightarrow> (case scopes conn of None \<Rightarrow> [] | Some x \<Rightarrow> x)))
     in ''operator.admin'' \<in> set ss)"

record SpawnParams =
  cols :: "int option"
  rows :: "int option"
  shell :: "string option"

text \<open>
  \<open>terminal.spawn\<close>. The spawner (\<open>spawnBwrapPtyAuto\<close>, given the tenant id, the shell
  and the clamped size) returns a handle or throws; \<open>uuid\<close> is the result of
  \<open>crypto.randomUUID()\<close> and \<open>now\<close> of \<open>Date.now()\<close>. The \<open>onData\<close> and
  \<open>onExit\<close> handlers installed on the handle run after the call and are not part of it.
\<close>

definition terminal_spawn ::
  "(string \<Rightarrow> string \<Rightarrow> int \<Rightarrow> int \<Rightarrow> string + BwrapPtyHandle) \<Rightarrow> string \<Rightarrow> int
    \<Rightarrow> GatewayClient option \<Rightarrow> SpawnParams \<Rightarrow> terminalSessions
    \<Rightarrow> Response \<times> terminalSessions" where
  "terminal_spawn spawner uuid now client params sessions =
    (case getTenantId client of
      None \<Rightarrow>
        (Response False None (Some (errorShape UNAUTHORIZED
           ''Tenant authentication required for terminal access'')), sessions)
    | Some tid \<Rightarrow>
      if tid = [] then
        (Response False None (Some (errorShape UNAUTHORIZED
           ''Tenant authentication required for terminal access'')), sessions)
      else if \<not> truthy (case client of None \<Rightarrow> None | Some cl \<Rightarrow> connId cl) then
        (Response False None (Some (errorShape UNAUTHORIZED ''Connection ID required'')),
         sessions)
      else
        (let cid = (case client of None \<Rightarrow> [] | Some cl \<Rightarrow>
                     (case connId cl of None \<Rightarrow> [] | Some c \<Rightarrow> c));
             c = (case cols params of None \<Rightarrow> 80 | Some n \<Rightarrow> max 10 (min 500 n));
             r = (case rows params of None \<Rightarrow> 24 | Some n \<Rightarrow> max 5 (min 200 n));
             sh = (case shell params of None \<Rightarrow> ''/bin/bash'' | Some x \<Rightarrow> x)
         in case spawner tid sh c r of
              Inl msg \<Rightarrow>
                (Response False None (Some (errorShape UNAVAILABLE
                   (''Failed to spawn terminal: '' @ msg))), sessions)
            | Inr p \<Rightarrow>
                (Response True (Some (SpawnPayload uuid (pid p) c r)) None,
                 AList.update uuid
                   \<lparr>s_terminalId = uuid, s_tenantId = tid, s_connId = cid, s_pty = p,
                    s_createdAt = now, s_lastActivityAt = now\<rparr> sessions)))"

record WriteParams =
  terminalId :: "string option"
  data :: "string option"

text \<open>
  \<open>terminal.write\<close>. \<open>data = None\<close> stands for a \<open>data\<close> that is not a string. The
  session object is mutated in place, so the entry keeps its position in the map.
\<close>

definition terminal_write ::
  "int \<Rightarrow> GatewayClient option \<Rightarrow> WriteParams \<Rightarrow> terminalSessions
    \<Rightarrow> Response \<times> terminalSessions" where
  "terminal_write now client params sessions =
    (let tenant = getTenantId client; isAdmin = hasAdminScope client in
     case terminalId params of
       None \<Rightarrow>
         (Response False None (Some (errorShape INVALID_REQUEST ''terminalId required'')),
          sessions)
     | Some tid \<Rightarrow>
       if tid = [] then
         (Response False None (Some (errorShape INVALID_REQUEST ''terminalId required'')),
          sessions)
       else case data params of
         None \<Rightarrow>
           (Response False None (Some (errorShape INVALID_REQUEST ''data required'')),
            sessions)
       | Some d \<Rightarrow>
         (case map_of sessions tid of
           None \<Rightarrow>
             (Response False None
                (Some (errorShape NOT_FOUND ''Terminal session not found'')), sessions)
         | Some session \<Rightarrow>
             if \<not> isAdmin \<and> Some (s_tenantId session) \<noteq> tenant then
               (Response False None (Some (errorShape UNAUTHORIZED ''Access denied'')),
                sessions)
             else
               (case pty_write (s_pty session) d of
                 Inl msg \<Rightarrow>
                   (Response False None (Some (errorShape UNAVAILABLE
                      (''Failed to write to terminal: '' @ msg))), sessions)
               | Inr p \<Rightarrow>
                   (Response True (Some (WrittenPayload (length d))) None,
                    AList.update tid
                      (session\<lparr>s_pty := p, s_lastActivityAt := now\<rparr>) sessions))))"

text \<open>\<open>terminal.list\<close>: the sessions the caller may see, in the map's order.\<close>

definition terminal_list :: "GatewayClient option \<Rightarrow> terminalSessions \<Rightarrow> Response" where
  "terminal_list client sessions =
    (let tenant = getTenantId client; isAdmin = hasAdminScope client in
     Response True
       (Some (SessionsPayload
          (map (\<lambda>s. \<lparr>i_terminalId = s_terminalId s, i_tenantId = s_tenantId s,
                      i_pid = pid (s_pty s), i_createdAt = s_createdAt s,
                      i_lastActivityAt = s_lastActivityAt s\<rparr>)
            (filter (\<lambda>s. isAdmin \<or> Some (s_tenantId s) = tenant) (map snd sessions)))))
       None)"

text \<open>The invariant that \<open>terminal.spawn\<close> keeps: every stored session has a tenant id.\<close>

definition sessions_owned :: "terminalSessions \<Rightarrow> bool" where
  "sessions_owned sessions = list_all (\<lambda>s. s_tenantId s \<noteq> []) (map snd sessions)"

section \<open>More string methods\<close>

definition endsWith :: "string \<Rightarrow> string \<Rightarrow> bool" where
  "endsWith s p = (length p \<le> length s \<and> drop (length s - length p) s = p)"

text \<open>\<open>s.split(c)\<close> for a one-character separator, and \<open>parts.join(sep)\<close>.\<close>

fun str_split :: "char \<Rightarrow> string \<Rightarrow> string list" where
  "str_split c [] = [[]]"
| "str_split c (x # xs) =
    (if x = c then [] # str_split c xs
     else (case str_split c xs of
             [] \<Rightarrow> [[x]]
           | w # ws \<Rightarrow> (x # w) # ws))"

fun str_join :: "string \<Rightarrow> string list \<Rightarrow> string" where
  "str_join sep [] = []"
| "str_join sep [x] = x"
| "str_join sep (x # y # ys) = x @ sep @ str_join sep (y # ys)"

section \<open>POSIX paths (node:path)\<close>

text \<open>
  The gateway runs on Linux, so \<open>path\<close> is \<open>path.posix\<close> and \<open>path.sep\<close> is
  \<open>/\<close>. \<open>normalizeString\<close> walks the segments of a path: empty segments and \<open>.\<close>
  are dropped, \<open>..\<close> removes the segment before it, or is kept when there is none and
  the path is relative. The accumulator holds the kept segments, last first.
\<close>

fun normalizeString :: "bool \<Rightarrow> string list \<Rightarrow> string list \<Rightarrow> string list" where
  "normalizeString allowAboveRoot acc [] = rev acc"
| "normalizeString allowAboveRoot acc (s # ss) =
    (if s = [] \<or> s = ''.'' then normalizeString allowAboveRoot acc ss
     else if s = ''..'' then
       (case acc of
         [] \<Rightarrow> normalizeString allowAboveRoot (if allowAboveRoot then [''..''] else []) ss
       | a # as \<Rightarrow>
           if a = ''..'' then
             normalizeString allowAboveRoot (if allowAboveRoot then ''..'' # acc else acc) ss
           else normalizeString allowAboveRoot as ss)
     else normalizeString allowAboveRoot (s # acc) ss)"

definition isAbsolute :: "string \<Rightarrow> bool" where
  "isAbsolute p = (case p of [] \<Rightarrow> False | c # cs \<Rightarrow> c = CHR ''/'')"

definition posix_normalize :: "string \<Rightarrow> string" where
  "posix_normalize p =
    (if p = [] then ''.''
     else
       (let trailingSeparator = (last p = CHR ''/'');
            q = str_join ''/'' (normalizeString (\<not> isAbsolute p) [] (str_split CHR ''/'' p))
        in if q = [] then
             (if isAbsolute p then ''/'' else if trailingSeparator then ''./'' else ''.'')
           else (if isAbsolute p then ''/'' else [])
                @ q @ (if trailingSeparator then ''/'' else [])))"

definition posix_join :: "string list \<Rightarrow> string" where
  "posix_join args =
    (let parts = filter (\<lambda>a. a \<noteq> []) args
     in if parts = [] then ''.'' else posix_normalize (str_join ''/'' parts))"

text \<open>
  \<open>path.resolve\<close> reads its arguments from the right until the path is absolute, and
  falls back on the working directory, which is absolute.
\<close>

fun resolve_loop :: "string list \<Rightarrow> string \<Rightarrow> string \<times> bool" where
  "resolve_loop [] acc = (acc, False)"
| "resolve_loop (p # ps) acc =
    (if p = [] then resolve_loop ps acc
     else if isAbsolute p then (p @ ''/'' @ acc, True)
     else resolve_loop ps (p @ ''/'' @ acc))"

definition posix_resolve :: "string \<Rightarrow> string list \<Rightarrow> string" where
  "posix_resolve cwd args =
    (case resolve_loop (rev args @ [cwd]) [] of
      (resolvedPath, resolvedAbsolute) \<Rightarrow>
        (let q = str_join ''/''
                   (normalizeString (\<not> resolvedAbsolute) [] (str_split CHR ''/'' resolvedPath))
         in if resolvedAbsolute then ''/'' @ q
            else if q \<noteq> [] then q else ''.''))"

text \<open>
  \<open>path.dirname\<close> cuts the path before the last separator that follows a character
  other than a separator, reading from the right and not looking at the first character.
\<close>

definition posix_dirname :: "string \<Rightarrow> string" where
  "posix_dirname p =
    (case p of
      [] \<Rightarrow> ''.''
    | c # cs \<Rightarrow>
      (let hasRoot = (c = CHR ''/'');
           r1 = dropWhile (\<lambda>x. x = CHR ''/'') (rev cs);
           r2 = dropWhile (\<lambda>x. x \<noteq> CHR ''/'') r1
       in if r2 = [] then (if hasRoot then ''/'' else ''.'')
          else if hasRoot \<and> length r2 = 1 then ''//''
          else take (length r2) p))"

text \<open>A path segment that \<open>normalizeString\<close> keeps as it is.\<close>

definition plain_segment :: "string \<Rightarrow> bool" where
  "plain_segment s = (s \<noteq> [] \<and> s \<noteq> ''.'' \<and> s \<noteq> ''..'' \<and> CHR ''/'' \<notin> set s)"

section \<open>Tenant ids and tokens (tenants/types.ts)\<close>

definition lower_alnum :: "char \<Rightarrow> bool" where
  "lower_alnum c = (c \<in> set ''abcdefghijklmnopqrstuvwxyz0123456789'')"

definition id_char :: "char \<Rightarrow> bool" where
  "id_char c = (lower_alnum c \<or> c = CHR ''_'' \<or> c = CHR ''-'')"

text \<open>\<open>TENANT_ID_PATTERN\<close> is \<open>/^[a-z0-9][a-z0-9_-]{0,31}$/\<close>.\<close>

definition isValidTenantId :: "string \<Rightarrow> bool" where
  "isValidTenantId tid =
    (case tid of
      [] \<Rightarrow> False
    | c # cs \<Rightarrow> lower_alnum c \<and> length cs \<le> 31 \<and> list_all id_char cs)"

definition parseTenantToken :: "string \<Rightarrow> (string \<times> string) option" where
  "parseTenantToken token =
    (if \<not> startsWith token ''tenant:'' then None
     else
       (case str_split CHR '':'' token of
         p0 # tid # r # rest \<Rightarrow>
           (let secret = str_join '':'' (r # rest)
            in if tid = [] \<or> secret = [] then None else Some (tid, secret))
       | _ \<Rightarrow> None))"

definition buildTenantToken :: "string \<Rightarrow> string \<Rightarrow> string" where
  "buildTenantToken tid secret = ''tenant:'' @ tid @ '':'' @ secret"

section \<open>Tenant paths (tenants/paths.ts)\<close>

text \<open>
  \<open>baseDir\<close> is the result of \<open>resolveStateDir(env)\<close>, which is defined outside this
  development. \<open>tenantId = None\<close> is \<open>undefined\<close>.
\<close>

definition resolveTenantStateDir :: "string \<Rightarrow> string option \<Rightarrow> string" where
  "resolveTenantStateDir baseDir tid =
    (if \<not> truthy tid then baseDir
     else posix_join [baseDir, ''tenants'', (case tid of None \<Rightarrow> [] | Some t \<Rightarrow> t)])"

definition resolveTenantUsageDir :: "string \<Rightarrow> string \<Rightarrow> string" where
  "resolveTenantUsageDir baseDir tid =
    posix_join [resolveTenantStateDir baseDir (Some tid), ''usage'']"

definition resolveTenantUsageCurrentPath :: "string \<Rightarrow> string \<Rightarrow> string" where
  "resolveTenantUsageCurrentPath baseDir tid =
    posix_join [resolveTenantUsageDir baseDir tid, ''current.json'']"

definition resolveTenantUsageHistoryPath :: "string \<Rightarrow> string \<Rightarrow> string \<Rightarrow> string" where
  "resolveTenantUsageHistoryPath baseDir tid period =
    posix_join [resolveTenantUsageDir baseDir tid, period @ ''.json'']"

definition resolveTenantRateLimitPath :: "string \<Rightarrow> string \<Rightarrow> string" where
  "resolveTenantRateLimitPath baseDir tid =
    posix_join [resolveTenantUsageDir baseDir tid, ''rate-limits.json'']"

section \<open>Tenant registry (tenants/registry.ts)\<close>

text \<open>
  Quotas are optional numbers; \<open>None\<close> is an absent field.
\<close>

record TenantQuotas =
  monthlyTokenLimit :: "int option"
  monthlyTokenSoftLimit :: "int option"
  monthlyCostLimitCents :: "int option"
  monthlyCostSoftLimitCents :: "int option"
  diskSpaceLimitBytes :: "int option"
  maxConcurrentSessions :: "int option"
  requestsPerMinute :: "int option"
  requestsPerHour :: "int option"
  maxSandboxCpuPercent :: "int option"
  maxSandboxMemoryMB :: "int option"
  maxSandboxDiskMB :: "int option"
  maxSandboxPids :: "int option"

record TenantEntry =
  tokenHash :: string
  e_createdAt :: string
  lastSeenAt :: "string option"
  displayName :: "string option"
  disabled :: "bool option"
  quotas :: "TenantQuotas option"

record TenantContext =
  ctx_tenantId :: string
  ctx_tokenHash :: string
  ctx_stateDir :: string
  ctx_createdAt :: string
  ctx_lastSeenAt :: "string option"

record CreateTenantResult =
  r_tenantId :: string
  r_token :: string
  r_createdAt :: string

text \<open>
  \<open>registry.tenants\<close> is a plain JavaScript object used as a dictionary: the map holds
  its own properties. Reading \<open>tenants[key]\<close> finds an own property, or else a property
  inherited from \<open>Object.prototype\<close> (a function or object, which is truthy and has
  none of an entry's fields), or else \<open>undefined\<close>.
\<close>

type_synonym tenants = "string \<rightharpoonup> TenantEntry"

datatype 'a property = Own 'a | Inherited | Undefined

definition Object_prototype_keys :: "string list" where
  "Object_prototype_keys =
    [''constructor'', ''__proto__'', ''hasOwnProperty'', ''isPrototypeOf'',
     ''propertyIsEnumerable'', ''toLocaleString'', ''toString'', ''valueOf'',
     ''__defineGetter__'', ''__defineSetter__'', ''__lookupGetter__'', ''__lookupSetter__'']"

definition obj_get :: "(string \<rightharpoonup> 'a) \<Rightarrow> string \<Rightarrow> 'a property" where
  "obj_get obj key =
    (case obj key of
      Some v \<Rightarrow> Own v
    | None \<Rightarrow> if key \<in> set Object_prototype_keys then Inherited else Undefined)"

datatype js_error = Error string | TypeError | SyntaxError | Errno string

text \<open>
  \<open>timingSafeEqual\<close> compares two buffers of the same length byte by byte; the length
  check before it returns early.
\<close>

definition safeEqualHash :: "string \<Rightarrow> string \<Rightarrow> bool" where
  "safeEqualHash a b = (if length a \<noteq> length b then False else a = b)"

text \<open>
  The registry file is read at the start of each operation and written at its end; the
  state passed here is the registry as saved. \<open>sha256hex\<close> is \<open>hashToken\<close> (SHA-256 in
  hexadecimal), \<open>secret\<close> the result of \<open>generateToken()\<close>, \<open>now\<close> the result of
  \<open>new Date().toISOString()\<close>. The directories that \<open>initializeTenantDirectories\<close>
  creates are not part of the state.
\<close>

definition createTenant ::
  "(string \<Rightarrow> string) \<Rightarrow> string \<Rightarrow> string \<Rightarrow> string \<Rightarrow> string option \<Rightarrow> tenants
    \<Rightarrow> js_error + (CreateTenantResult \<times> tenants)" where
  "createTenant sha256hex secret now tid dname reg =
    (if \<not> isValidTenantId tid then
       Inl (Error (''Invalid tenant ID: '' @ [CHR 0x22] @ tid @ [CHR 0x22]
         @ ''. Must match pattern: lowercase alphanumeric, hyphens, underscores, 1-32 chars.''))
     else if obj_get reg tid \<noteq> Undefined then
       Inl (Error (''Tenant already exists: '' @ [CHR 0x22] @ tid @ [CHR 0x22]))
     else
       (let entry = \<lparr>tokenHash = sha256hex secret, e_createdAt = now, lastSeenAt = None,
                     displayName = dname, disabled = None, quotas = None\<rparr>
        in Inr (\<lparr>r_tenantId = tid, r_token = buildTenantToken tid secret, r_createdAt = now\<rparr>,
                reg(tid \<mapsto> entry))))"

text \<open>
  \<open>validateTenantToken\<close>. An inherited property passes the \<open>!entry\<close> and
  \<open>entry.disabled\<close> checks and has no \<open>tokenHash\<close>, so \<open>safeEqualHash\<close> throws on
  \<open>b.length\<close>.
\<close>

definition validateTenantToken ::
  "(string \<Rightarrow> string) \<Rightarrow> string \<Rightarrow> string \<Rightarrow> string \<Rightarrow> tenants
    \<Rightarrow> js_error + (TenantContext option \<times> tenants)" where
  "validateTenantToken sha256hex now baseDir token reg =
    (case parseTenantToken token of
      None \<Rightarrow> Inr (None, reg)
    | Some (tid, secret) \<Rightarrow>
      (case obj_get reg tid of
        Undefined \<Rightarrow> Inr (None, reg)
      | Inherited \<Rightarrow> Inl TypeError
      | Own entry \<Rightarrow>
          if disabled entry = Some True then Inr (None, reg)
          else if \<not> safeEqualHash (sha256hex secret) (tokenHash entry) then Inr (None, reg)
          else
            Inr (Some \<lparr>ctx_tenantId = tid, ctx_tokenHash = tokenHash entry,
                       ctx_stateDir = resolveTenantStateDir baseDir (Some tid),
                       ctx_createdAt = e_createdAt entry, ctx_lastSeenAt = Some now\<rparr>,
                 reg(tid \<mapsto> entry\<lparr>lastSeenAt := Some now\<rparr>))))"

section \<open>Usage tracking (tenants/usage.ts)\<close>

record TenantUsageSnapshot =
  u_tenantId :: string
  period :: string
  totalTokens :: int
  inputTokens :: int
  outputTokens :: int
  cacheReadTokens :: int
  cacheWriteTokens :: int
  totalCostCents :: int
  diskUsageBytes :: int
  workspaceBytes :: int
  agentDataBytes :: int
  memoryDbBytes :: int
  totalSessions :: int
  activeSessions :: int
  totalMessages :: int
  totalRequests :: int
  requestsThisMinute :: int
  requestsThisHour :: int
  sandboxCpuSeconds :: int
  sandboxPeakMemoryMB :: int
  updatedAt :: int
  quotaResetAt :: int

record RateLimitState =
  minuteWindow :: "int list"
  hourWindow :: "int list"
  lastCleanup :: int

text \<open>
  A file holds JSON text: of a usage snapshot, of a rate-limit state, or text that
  \<open>JSON.parse\<close> rejects. The file system maps a path to a directory or to a file;
  a path it does not map does not exist. The root and the working directory exist.
  \<open>Errno code\<close> is an error of the file system with its \<open>code\<close>.
\<close>

datatype FileContent = UsageJson TenantUsageSnapshot | RateJson RateLimitState | NotJson

datatype FsNode = Directory | File FileContent

type_synonym files = "string \<rightharpoonup> FsNode"

definition isDirectory :: "files \<Rightarrow> string \<Rightarrow> bool" where
  "isDirectory fs p = (p = ''/'' \<or> p = ''.'' \<or> fs p = Some Directory)"

definition readFile :: "string \<Rightarrow> files \<Rightarrow> js_error + FileContent" where
  "readFile path fs =
    (case fs path of
      None \<Rightarrow> Inl (Errno ''ENOENT'')
    | Some Directory \<Rightarrow> Inl (Errno ''EISDIR'')
    | Some (File c) \<Rightarrow> Inr c)"

text \<open>
  \<open>fs.writeFile\<close> creates or replaces a file in an existing directory: it fails with
  \<open>ENOENT\<close> when the directory of the path does not exist, with \<open>ENOTDIR\<close> when
  that is a file, and with \<open>EISDIR\<close> when the path is a directory.
\<close>

definition writeFile :: "string \<Rightarrow> FileContent \<Rightarrow> files \<Rightarrow> js_error + files" where
  "writeFile path content fs =
    (if fs path = Some Directory then Inl (Errno ''EISDIR'')
     else if isDirectory fs (posix_dirname path) then Inr (fs(path \<mapsto> File content))
     else if fs (posix_dirname path) = None then Inl (Errno ''ENOENT'')
     else Inl (Errno ''ENOTDIR''))"

text \<open>
  \<open>fs.mkdir(dir, {recursive: true})\<close> does nothing on an existing directory, and
  otherwise creates the directory and those above it that are missing; it fails when one
  of them is a file. The result is the error, if any, and the file system as it was left.
\<close>

definition ancestors :: "string \<Rightarrow> string list" where
  "ancestors dir =
    (let segs = normalizeString (\<not> isAbsolute dir) [] (str_split CHR ''/'' dir)
     in map (\<lambda>n. (if isAbsolute dir then ''/'' else []) @ str_join ''/'' (take n segs))
          [1..<Suc (length segs)])"

fun mkdirs :: "string list \<Rightarrow> files \<Rightarrow> js_error option \<times> files" where
  "mkdirs [] fs = (None, fs)"
| "mkdirs (d # ds) fs =
    (case fs d of
      Some (File c) \<Rightarrow> (Some (Errno (if ds = [] then ''EEXIST'' else ''ENOTDIR'')), fs)
    | _ \<Rightarrow> mkdirs ds (fs(d \<mapsto> Directory)))"

definition mkdir_recursive :: "string \<Rightarrow> files \<Rightarrow> js_error option \<times> files" where
  "mkdir_recursive dir fs = (if isDirectory fs dir then (None, fs) else mkdirs (ancestors dir) fs)"

text \<open>
  What a call reads from its environment: the state directory (\<open>resolveStateDir(env)\<close>),
  the clock (\<open>Date.now()\<close>, and \<open>getFullYear()\<close> and \<open>getMonth()\<close> of
  \<open>new Date()\<close>), and \<open>Date.UTC(year, month, 1, 0, 0, 0)\<close> as a function of year and
  month. One call reads the clock several times; the readings are taken to be equal.
\<close>

record Runtime =
  rt_stateDir :: string
  rt_now :: int
  rt_year :: nat
  rt_month :: nat
  rt_dateUTC :: "nat \<Rightarrow> nat \<Rightarrow> int"

definition digit_char :: "nat \<Rightarrow> char" where
  "digit_char n = (''0123456789'' ! (n mod 10))"

function show_nat :: "nat \<Rightarrow> string" where
  "show_nat n = (if n < 10 then [digit_char n] else show_nat (n div 10) @ [digit_char n])"
  by pat_completeness auto
termination
  by (relation "measure id") auto

declare show_nat.simps [simp del]

definition padStart2 :: "string \<Rightarrow> string" where
  "padStart2 s = (if length s < 2 then replicate (2 - length s) CHR ''0'' @ s else s)"

definition getCurrentPeriod :: "Runtime \<Rightarrow> string" where
  "getCurrentPeriod rt = show_nat (rt_year rt) @ ''-'' @ padStart2 (show_nat (rt_month rt + 1))"

text \<open>
  A period label has the form \<open>YYYY-MM\<close>: the source's pattern for history files is
  \<open>/^\d{4}-\d{2}\.json$/\<close>.
\<close>

definition is_digit :: "char \<Rightarrow> bool" where
  "is_digit c = (c \<in> set ''0123456789'')"

definition is_month_label :: "string \<Rightarrow> bool" where
  "is_month_label s =
    (case s of
      [y1, y2, y3, y4, d, m1, m2] \<Rightarrow>
        is_digit y1 \<and> is_digit y2 \<and> is_digit y3 \<and> is_digit y4 \<and> d = CHR ''-''
        \<and> is_digit m1 \<and> is_digit m2
    | _ \<Rightarrow> False)"

definition getQuotaResetTimestamp :: "Runtime \<Rightarrow> int" where
  "getQuotaResetTimestamp rt = rt_dateUTC rt (rt_year rt) (rt_month rt + 1)"

definition createEmptyUsageSnapshot :: "Runtime \<Rightarrow> string \<Rightarrow> TenantUsageSnapshot" where
  "createEmptyUsageSnapshot rt tid =
    \<lparr>u_tenantId = tid, period = getCurrentPeriod rt,
     totalTokens = 0, inputTokens = 0, outputTokens = 0, cacheReadTokens = 0,
     cacheWriteTokens = 0, totalCostCents = 0, diskUsageBytes = 0, workspaceBytes = 0,
     agentDataBytes = 0, memoryDbBytes = 0, totalSessions = 0, activeSessions = 0,
     totalMessages = 0, totalRequests = 0, requestsThisMinute = 0, requestsThisHour = 0,
     sandboxCpuSeconds = 0, sandboxPeakMemoryMB = 0,
     updatedAt = rt_now rt, quotaResetAt = getQuotaResetTimestamp rt\<rparr>"

text \<open>
  \<open>archiveUsageSnapshot\<close> makes sure of the usage directory and writes what it is given
  to the history path of the given period label. The result is the error thrown, if any,
  and the file system as it was left.
\<close>

definition archiveContent ::
  "Runtime \<Rightarrow> string \<Rightarrow> string \<Rightarrow> FileContent \<Rightarrow> files \<Rightarrow> js_error option \<times> files" where
  "archiveContent rt tid label content fs =
    (case mkdir_recursive (resolveTenantUsageDir (rt_stateDir rt) tid) fs of
      (Some e, fs1) \<Rightarrow> (Some e, fs1)
    | (None, fs1) \<Rightarrow>
        (case writeFile (resolveTenantUsageHistoryPath (rt_stateDir rt) tid label) content fs1 of
          Inl e \<Rightarrow> (Some e, fs1)
        | Inr fs2 \<Rightarrow> (None, fs2)))"

definition archiveUsageSnapshot ::
  "Runtime \<Rightarrow> string \<Rightarrow> TenantUsageSnapshot \<Rightarrow> files \<Rightarrow> js_error option \<times> files" where
  "archiveUsageSnapshot rt tid snapshot fs =
    archiveContent rt tid (period snapshot) (UsageJson snapshot) fs"

text \<open>
  The \<open>catch\<close> of \<open>loadTenantUsage\<close> covers reading, parsing and archiving: an error
  whose code is \<open>ENOENT\<close> is answered with a fresh snapshot, any other error is thrown
  again.
\<close>

definition caught ::
  "Runtime \<Rightarrow> string \<Rightarrow> js_error \<Rightarrow> files \<Rightarrow> (js_error + TenantUsageSnapshot) \<times> files" where
  "caught rt tid e fs =
    (if e = Errno ''ENOENT'' then (Inr (createEmptyUsageSnapshot rt tid), fs) else (Inl e, fs))"

text \<open>
  \<open>loadTenantUsage\<close>. A missing file gives a fresh snapshot; a \<open>SyntaxError\<close> of
  \<open>JSON.parse\<close> is thrown again. A snapshot of another period is archived, and a fresh
  one returned. JSON of another shape has no \<open>period\<close>: it is archived as it is under
  the label \<open>undefined\<close>.
\<close>

definition loadTenantUsage ::
  "Runtime \<Rightarrow> string \<Rightarrow> files \<Rightarrow> (js_error + TenantUsageSnapshot) \<times> files" where
  "loadTenantUsage rt tid fs =
    (let usagePath = resolveTenantUsageCurrentPath (rt_stateDir rt) tid;
         currentPeriod = getCurrentPeriod rt
     in case readFile usagePath fs of
          Inl e \<Rightarrow> caught rt tid e fs
        | Inr NotJson \<Rightarrow> caught rt tid SyntaxError fs
        | Inr (RateJson st) \<Rightarrow>
            (case archiveContent rt tid ''undefined'' (RateJson st) fs of
              (Some e, fs1) \<Rightarrow> caught rt tid e fs1
            | (None, fs1) \<Rightarrow> (Inr (createEmptyUsageSnapshot rt tid), fs1))
        | Inr (UsageJson snapshot) \<Rightarrow>
            if period snapshot \<noteq> currentPeriod then
              (case archiveUsageSnapshot rt tid snapshot fs of
                (Some e, fs1) \<Rightarrow> caught rt tid e fs1
              | (None, fs1) \<Rightarrow> (Inr (createEmptyUsageSnapshot rt tid), fs1))
            else (Inr snapshot, fs))"

definition saveTenantUsage ::
  "Runtime \<Rightarrow> string \<Rightarrow> TenantUsageSnapshot \<Rightarrow> files \<Rightarrow> js_error option \<times> files" where
  "saveTenantUsage rt tid snapshot fs =
    (case mkdir_recursive (resolveTenantUsageDir (rt_stateDir rt) tid) fs of
      (Some e, fs1) \<Rightarrow> (Some e, fs1)
    | (None, fs1) \<Rightarrow>
        (case writeFile (resolveTenantUsageCurrentPath (rt_stateDir rt) tid)
                (UsageJson (snapshot\<lparr>updatedAt := rt_now rt\<rparr>)) fs1 of
          Inl e \<Rightarrow> (Some e, fs1)
        | Inr fs2 \<Rightarrow> (None, fs2)))"

text \<open>
  \<open>loadRateLimitState\<close> catches every error and starts from empty windows. JSON of
  another shape is returned as it is (\<open>None\<close> here); its windows are \<open>undefined\<close>.
\<close>

definition loadRateLimitState :: "Runtime \<Rightarrow> string \<Rightarrow> files \<Rightarrow> RateLimitState option" where
  "loadRateLimitState rt tid fs =
    (case readFile (resolveTenantRateLimitPath (rt_stateDir rt) tid) fs of
      Inr (RateJson st) \<Rightarrow> Some st
    | Inr (UsageJson u) \<Rightarrow> None
    | _ \<Rightarrow> Some \<lparr>minuteWindow = [], hourWindow = [], lastCleanup = rt_now rt\<rparr>)"

definition saveRateLimitState ::
  "Runtime \<Rightarrow> string \<Rightarrow> RateLimitState \<Rightarrow> files \<Rightarrow> js_error option \<times> files" where
  "saveRateLimitState rt tid st fs =
    (case mkdir_recursive (resolveTenantUsageDir (rt_stateDir rt) tid) fs of
      (Some e, fs1) \<Rightarrow> (Some e, fs1)
    | (None, fs1) \<Rightarrow>
        (case writeFile (resolveTenantRateLimitPath (rt_stateDir rt) tid) (RateJson st) fs1 of
          Inl e \<Rightarrow> (Some e, fs1)
        | Inr fs2 \<Rightarrow> (None, fs2)))"

text \<open>The result \<open>{allowed, reason?}\<close> of \<open>checkAndRecordRequest\<close>.\<close>

datatype RateResult = RateAllowed | RateDenied string

definition checkAndRecordRequest ::
  "Runtime \<Rightarrow> string \<Rightarrow> TenantQuotas \<Rightarrow> files \<Rightarrow> (js_error + RateResult) \<times> files" where
  "checkAndRecordRequest rt tid q fs =
    (case loadRateLimitState rt tid fs of
      None \<Rightarrow> (Inl TypeError, fs)
    | Some st \<Rightarrow>
      (let now = rt_now rt;
           oneMinuteAgo = now - 60 * 1000;
           oneHourAgo = now - 60 * 60 * 1000;
           mw = filter (\<lambda>t. t > oneMinuteAgo) (minuteWindow st);
           hw = filter (\<lambda>t. t > oneHourAgo) (hourWindow st)
       in if (case requestsPerMinute q of None \<Rightarrow> False | Some l \<Rightarrow> int (length mw) \<ge> l)
          then (Inr (RateDenied ''Rate limit exceeded (per minute)''), fs)
          else if (case requestsPerHour q of None \<Rightarrow> False | Some l \<Rightarrow> int (length hw) \<ge> l)
          then (Inr (RateDenied ''Rate limit exceeded (per hour)''), fs)
          else
            (let st' = \<lparr>minuteWindow = mw @ [now], hourWindow = hw @ [now],
                        lastCleanup = now\<rparr>
             in case saveRateLimitState rt tid st' fs of
                  (Some e, fs1) \<Rightarrow> (Inl e, fs1)
                | (None, fs1) \<Rightarrow>
                    (case loadTenantUsage rt tid fs1 of
                      (Inl e, fs2) \<Rightarrow> (Inl e, fs2)
                    | (Inr snapshot, fs2) \<Rightarrow>
                        (case saveTenantUsage rt tid
                                (snapshot\<lparr>totalRequests := totalRequests snapshot + 1,
                                   requestsThisMinute := int (length (minuteWindow st')),
                                   requestsThisHour := int (length (hourWindow st'))\<rparr>)
                                fs2 of
                          (Some e, fs3) \<Rightarrow> (Inl e, fs3)
                        | (None, fs3) \<Rightarrow> (Inr RateAllowed, fs3))))))"

text \<open>
  \<open>getTenantQuotaStatus\<close>. A limit counts when it is set and not zero. The three
  percentages are floating-point numbers and are left out of the record.
\<close>

record TenantQuotaStatus =
  qs_tenantId :: string
  qs_quotas :: TenantQuotas
  qs_usage :: TenantUsageSnapshot
  isOverTokenLimit :: bool
  isOverCostLimit :: bool
  isOverDiskLimit :: bool
  isAtSoftLimit :: bool
  isBlocked :: bool

definition reached :: "int option \<Rightarrow> int \<Rightarrow> bool" where
  "reached limit used = (case limit of None \<Rightarrow> False | Some l \<Rightarrow> l \<noteq> 0 \<and> used \<ge> l)"

definition getTenantQuotaStatus ::
  "Runtime \<Rightarrow> string \<Rightarrow> TenantQuotas \<Rightarrow> files \<Rightarrow> (js_error + TenantQuotaStatus) \<times> files" where
  "getTenantQuotaStatus rt tid q fs =
    (case loadTenantUsage rt tid fs of
      (Inl e, fs1) \<Rightarrow> (Inl e, fs1)
    | (Inr usage, fs1) \<Rightarrow>
      (let overTok = reached (monthlyTokenLimit q) (totalTokens usage);
           overCost = reached (monthlyCostLimitCents q) (totalCostCents usage);
           overDisk = reached (diskSpaceLimitBytes q) (diskUsageBytes usage);
           softTok = reached (monthlyTokenSoftLimit q) (totalTokens usage);
           softCost = reached (monthlyCostSoftLimitCents q) (totalCostCents usage)
       in (Inr \<lparr>qs_tenantId = tid, qs_quotas = q, qs_usage = usage,
                isOverTokenLimit = overTok, isOverCostLimit = overCost,
                isOverDiskLimit = overDisk, isAtSoftLimit = (softTok \<or> softCost),
                isBlocked = (overTok \<or> overCost \<or> overDisk)\<rparr>, fs1)))"

text \<open>
  The value \<open>checkQuotaBeforeRequest\<close> returns is the object literal the source builds:
  its properties in order. Its TypeScript type \<open>QuotaCheckResult\<close> declares
  \<open>allowed\<close>, \<open>reason\<close>, \<open>message\<close> and \<open>warning\<close>.
\<close>

datatype JsValue = JBool bool | JString string | JUndefined

type_synonym JsObject = "(string \<times> JsValue) list"

definition denied :: "string \<Rightarrow> string \<Rightarrow> JsObject" where
  "denied reason msg =
    [(''allowed'', JBool False), (''reason'', JString reason), (''message'', JString msg)]"

text \<open>
  \<open>percent used limit\<close> stands for the text of the usage percentage with one
  decimal, \<open>((used / limit) * 100).toFixed(1)\<close>, a floating-point computation;
  the percentage is 0 when the hard limit is unset or zero (passed as 0 here).
\<close>

definition checkQuotaBeforeRequest ::
  "Runtime \<Rightarrow> (int \<Rightarrow> int \<Rightarrow> string) \<Rightarrow> string \<Rightarrow> TenantQuotas \<Rightarrow> files
    \<Rightarrow> (js_error + JsObject) \<times> files" where
  "checkQuotaBeforeRequest rt percent tid q fs =
    (case checkAndRecordRequest rt tid q fs of
      (Inl e, fs1) \<Rightarrow> (Inl e, fs1)
    | (Inr (RateDenied reason), fs1) \<Rightarrow> (Inr (denied ''rate_limited'' reason), fs1)
    | (Inr RateAllowed, fs1) \<Rightarrow>
      (case getTenantQuotaStatus rt tid q fs1 of
        (Inl e, fs2) \<Rightarrow> (Inl e, fs2)
      | (Inr status, fs2) \<Rightarrow>
          if isOverTokenLimit status then
            (Inr (denied ''quota_exceeded'' ''Monthly token quota exceeded''), fs2)
          else if isOverCostLimit status then
            (Inr (denied ''quota_exceeded'' ''Monthly cost limit exceeded''), fs2)
          else if isOverDiskLimit status then
            (Inr (denied ''disk_full'' ''Disk space limit exceeded''), fs2)
          else if (case maxConcurrentSessions q of
                     None \<Rightarrow> False
                   | Some l \<Rightarrow> activeSessions (qs_usage status) \<ge> l) then
            (Inr (denied ''sessions_exceeded'' ''Maximum concurrent sessions reached''), fs2)
          else
            (let usage = qs_usage status;
                 warnings =
                   (if reached (monthlyTokenSoftLimit q) (totalTokens usage)
                    then [''Token usage at ''
                          @ percent (totalTokens usage)
                              (case monthlyTokenLimit q of None \<Rightarrow> 0 | Some l \<Rightarrow> l)
                          @ ''% of limit'']
                    else [])
                   @ (if reached (monthlyCostSoftLimitCents q) (totalCostCents usage)
                      then [''Cost at ''
                            @ percent (totalCostCents usage)
                                (case monthlyCostLimitCents q of None \<Rightarrow> 0 | Some l \<Rightarrow> l)
                            @ ''% of limit'']
                      else []);
                 warning = (if isAtSoftLimit status
                            then JString (str_join ''; '' warnings) else JUndefined)
             in (Inr [(''allowed'', JBool True), (''warning'', warning)], fs2))))"

section \<open>Archive extraction (extractTarGz)\<close>

text \<open>
  An archive entry as the filter sees it: \<open>entry.type\<close> and \<open>entry.linkpath\<close> of
  node-tar's \<open>ReadEntry\<close>, next to the entry's path as stored in the archive.
\<close>

record ReadEntry =
  e_type :: string
  e_linkpath :: "string option"

definition inside :: "string \<Rightarrow> string \<Rightarrow> bool" where
  "inside dir p = (startsWith p (dir @ ''/'') \<or> p = dir)"

text \<open>
  The \<open>filter\<close> option that \<open>extractTarGz\<close> gives to \<open>tar.extract\<close>. \<open>cwd\<close> is the
  working directory that \<open>path.resolve\<close> falls back on.
\<close>

definition extract_filter :: "string \<Rightarrow> string \<Rightarrow> string \<Rightarrow> ReadEntry \<Rightarrow> bool" where
  "extract_filter cwd resolvedTargetDir entryPath readEntry =
    (if (e_type readEntry = ''SymbolicLink'' \<or> e_type readEntry = ''Link'')
        \<and> (let linkTarget = (case e_linkpath readEntry of None \<Rightarrow> [] | Some l \<Rightarrow> l);
                entryDir = posix_dirname (posix_join [resolvedTargetDir, entryPath]);
                resolvedLink = posix_resolve cwd [entryDir, linkTarget]
            in \<not> startsWith resolvedLink (resolvedTargetDir @ ''/'')
               \<and> resolvedLink \<noteq> resolvedTargetDir)
     then False
     else
       (let resolvedEntry = posix_resolve cwd [resolvedTargetDir, entryPath]
        in if \<not> startsWith resolvedEntry (resolvedTargetDir @ ''/'')
              \<and> resolvedEntry \<noteq> resolvedTargetDir
           then False else True))"

text \<open>The entries of an archive that pass the filter and are handed on for unpacking.\<close>

definition extractTarGz :: "string \<Rightarrow> string \<Rightarrow> (string \<times> ReadEntry) list \<Rightarrow> (string \<times> ReadEntry) list" where
  "extractTarGz cwd targetDir entries =
    (let resolvedTargetDir = posix_resolve cwd [targetDir]
     in filter (\<lambda>(entryPath, entry). extract_filter cwd resolvedTargetDir entryPath entry)
          entries)"

section \<open>Session keys (routing/session-key.ts)\<close>

text \<open>
  \<open>toLowerCase\<close> and \<open>trim\<close> on the ASCII range: the letters \<open>A\<close> to \<open>Z\<close>
  (codes 65 to 90) have lower case, 32 further on, and white space is tab, line feed,
  vertical tab, form feed, carriage return (codes 9 to 13) and space (code 32).
\<close>

definition lower_char :: "char \<Rightarrow> char" where
  "lower_char c =
    (let n = (of_char c :: nat) in if 65 \<le> n \<and> n \<le> 90 then char_of (n + 32) else c)"

definition toLowerCase :: "string \<Rightarrow> string" where
  "toLowerCase s = map lower_char s"

definition is_space :: "char \<Rightarrow> bool" where
  "is_space c = (let n = (of_char c :: nat) in (9 \<le> n \<and> n \<le> 13) \<or> n = 32)"

definition trim :: "string \<Rightarrow> string" where
  "trim s = rev (dropWhile is_space (rev (dropWhile is_space s)))"

definition DEFAULT_AGENT_ID :: string where "DEFAULT_AGENT_ID = ''main''"
definition DEFAULT_MAIN_KEY :: string where "DEFAULT_MAIN_KEY = ''main''"
definition TENANT_KEY_PREFIX :: string where "TENANT_KEY_PREFIX = ''tenant:''"

text \<open>\<open>VALID_ID_RE\<close> is \<open>/^[a-z0-9][a-z0-9_-]{0,63}$/i\<close>.\<close>

definition VALID_ID_RE :: "string \<Rightarrow> bool" where
  "VALID_ID_RE s =
    (case toLowerCase s of
      [] \<Rightarrow> False
    | c # cs \<Rightarrow> lower_alnum c \<and> length cs \<le> 63 \<and> list_all id_char cs)"

text \<open>
  \<open>s.replace(INVALID_CHARS_RE, "-")\<close> with \<open>/[^a-z0-9_-]+/g\<close>: every maximal run of
  other characters becomes one dash.
\<close>

function replace_invalid :: "string \<Rightarrow> string" where
  "replace_invalid [] = []"
| "replace_invalid (c # cs) =
    (if id_char c then c # replace_invalid cs
     else CHR ''-'' # replace_invalid (dropWhile (\<lambda>x. \<not> id_char x) cs))"
  by pat_completeness auto
termination
  by (relation "measure length") (auto simp: length_dropWhile_le less_Suc_eq_le)

definition strip_dashes :: "string \<Rightarrow> string" where
  "strip_dashes s =
    rev (dropWhile (\<lambda>x. x = CHR ''-'') (rev (dropWhile (\<lambda>x. x = CHR ''-'') s)))"

text \<open>A missing argument (\<open>undefined\<close> or \<open>null\<close>) is \<open>None\<close>.\<close>

definition normalizeMainKey :: "string option \<Rightarrow> string" where
  "normalizeMainKey v =
    (let trimmed = trim (case v of None \<Rightarrow> [] | Some x \<Rightarrow> x)
     in if trimmed \<noteq> [] then toLowerCase trimmed else DEFAULT_MAIN_KEY)"

definition normalizeAgentId :: "string option \<Rightarrow> string" where
  "normalizeAgentId v =
    (let trimmed = trim (case v of None \<Rightarrow> [] | Some x \<Rightarrow> x)
     in if trimmed = [] then DEFAULT_AGENT_ID
        else if VALID_ID_RE trimmed then toLowerCase trimmed
        else
          (let r = take 64 (strip_dashes (replace_invalid (toLowerCase trimmed)))
           in if r \<noteq> [] then r else DEFAULT_AGENT_ID))"

definition buildAgentMainSessionKey :: "string \<Rightarrow> string option \<Rightarrow> string" where
  "buildAgentMainSessionKey agentId mainKey =
    ''agent:'' @ normalizeAgentId (Some agentId) @ '':'' @ normalizeMainKey mainKey"

definition buildTenantSessionKey :: "string \<Rightarrow> string \<Rightarrow> string option \<Rightarrow> string" where
  "buildTenantSessionKey tid agentId mainKey =
    TENANT_KEY_PREFIX @ toLowerCase (trim tid) @ '':''
      @ buildAgentMainSessionKey agentId mainKey"

text \<open>
  Modelled from the spec: \<open>parseAgentSessionKey\<close> lives in
  \<open>sessions/session-key-utils\<close>, which is not among the sources. The spec gives the
  non-tenant key form \<open>agent:{agentId}:{rest}\<close> and lets parsing fail on a key that
  lacks the \<open>agent:{id}:\<close> segment: the agent id is the text up to the next colon and
  the rest is what follows it, both non-empty.
\<close>

definition parseAgentSessionKey :: "string \<Rightarrow> (string \<times> string) option" where
  "parseAgentSessionKey key =
    (if \<not> startsWith key ''agent:'' then None
     else
       (let body = drop 6 key;
            aid = takeWhile (\<lambda>c. c \<noteq> CHR '':'') body;
            r = drop (length aid + 1) body
        in if CHR '':'' \<notin> set body \<or> aid = [] \<or> r = [] then None else Some (aid, r)))"

record ParsedTenantSessionKey =
  p_tenantId :: string
  p_agentKey :: string
  p_agentId :: string
  p_rest :: string

definition parseTenantSessionKey :: "string \<Rightarrow> ParsedTenantSessionKey option" where
  "parseTenantSessionKey sessionKey =
    (let trimmed = toLowerCase (trim sessionKey)
     in if \<not> startsWith trimmed TENANT_KEY_PREFIX then None
        else
          (let withoutPrefix = drop (length TENANT_KEY_PREFIX) trimmed
           in if CHR '':'' \<notin> set withoutPrefix then None
              else
                (let tid = takeWhile (\<lambda>c. c \<noteq> CHR '':'') withoutPrefix;
                     agentKey = drop (length tid + 1) withoutPrefix
                 in if tid = [] \<or> agentKey = [] then None
                    else
                      (case parseAgentSessionKey agentKey of
                        None \<Rightarrow> None
                      | Some (aid, r) \<Rightarrow>
                          Some \<lparr>p_tenantId = tid, p_agentKey = agentKey,
                                p_agentId = aid, p_rest = r\<rparr>))))"

section \<open>Session-key scoping at the HTTP surface (gateway/http-utils)\<close>

text \<open>
  Modelled from the spec: \<open>scopeSessionKeyToTenant\<close> lives in \<open>gateway/http-utils\<close>,
  of which only the tests are among the sources. The spec: with no tenant id the key is
  returned unchanged; a key with prefix \<open>tenant:X:\<close> is returned unchanged when \<open>X\<close>
  is the tenant id and is an error "does not match authenticated tenant" otherwise; any
  other key gets the prefix \<open>tenant:{tenantId}:\<close>. \<open>X\<close> is the text between the
  first two colons. \<open>Inl\<close> is the error result, \<open>Inr\<close> the scoped key.
\<close>

definition scopeSessionKeyToTenant :: "string \<Rightarrow> string option \<Rightarrow> string + string" where
  "scopeSessionKeyToTenant sessionKey tid =
    (case tid of
      None \<Rightarrow> Inr sessionKey
    | Some t \<Rightarrow>
        if startsWith sessionKey ''tenant:'' \<and> CHR '':'' \<in> set (drop 7 sessionKey) then
          (if takeWhile (\<lambda>c. c \<noteq> CHR '':'') (drop 7 sessionKey) = t then Inr sessionKey
           else Inl ''does not match authenticated tenant'')
        else Inr (''tenant:'' @ t @ '':'' @ sessionKey))"

text \<open>
  Modelled from the spec: the handler of \<open>POST /v1/chat/completions\<close> is not among the
  sources. The spec: on a tenant-authenticated call the client's session key is passed
  through \<open>scopeSessionKeyToTenant\<close>; a mismatched tenant prefix produces
  \<open>403 forbidden\<close>, and otherwise the agent runner is invoked with the scoped key.
\<close>

datatype HttpOutcome = HttpError nat string | AgentRun string

definition chatCompletionsSession :: "string option \<Rightarrow> string \<Rightarrow> HttpOutcome" where
  "chatCompletionsSession tid sessionKey =
    (case scopeSessionKeyToTenant sessionKey tid of
      Inl msg \<Rightarrow> HttpError 403 ''forbidden''
    | Inr key \<Rightarrow> AgentRun key)"

section \<open>Example data\<close>

text \<open>
  A gateway whose state directory is \<open>/s\<close>, on 3 November 2026 (month index 10), with
  one tenant \<open>demo\<close> whose stored usage snapshot is of October 2026.
\<close>

definition demo_rt :: Runtime where
  "demo_rt = \<lparr>rt_stateDir = ''/s'', rt_now = 1793707200000, rt_year = 2026, rt_month = 10,
              rt_dateUTC = (\<lambda>y m. 1796083200000)\<rparr>"

definition demo_old :: TenantUsageSnapshot where
  "demo_old =
    \<lparr>u_tenantId = ''demo'', period = ''2026-10'',
     totalTokens = 1500, inputTokens = 1000, outputTokens = 400, cacheReadTokens = 60,
     cacheWriteTokens = 40, totalCostCents = 12, diskUsageBytes = 4096, workspaceBytes = 2048,
     agentDataBytes = 1024, memoryDbBytes = 512, totalSessions = 3, activeSessions = 1,
     totalMessages = 9, totalRequests = 20, requestsThisMinute = 1, requestsThisHour = 5,
     sandboxCpuSeconds = 7, sandboxPeakMemoryMB = 128,
     updatedAt = 1793500000000, quotaResetAt = 1793491200000\<rparr>"

definition demo_files :: files where
  "demo_files =
    [''/s/tenants/demo/usage'' \<mapsto> Directory,
     ''/s/tenants/demo/usage/current.json'' \<mapsto> File (UsageJson demo_old)]"

definition noQuotas :: TenantQuotas where
  "noQuotas =
    \<lparr>monthlyTokenLimit = None, monthlyTokenSoftLimit = None, monthlyCostLimitCents = None,
     monthlyCostSoftLimitCents = None, diskSpaceLimitBytes = None,
     maxConcurrentSessions = None, requestsPerMinute = None, requestsPerHour = None,
     maxSandboxCpuPercent = None, maxSandboxMemoryMB = None, maxSandboxDiskMB = None,
     maxSandboxPids = None\<rparr>"

text \<open>No soft limit is reached in the examples, so no percentage is printed.\<close>

definition no_percent :: "int \<Rightarrow> int \<Rightarrow> string" where
  "no_percent used limit = []"

text \<open>Two requests in the last minute, the second half a second ago.\<close>

definition demo_rate_files :: files where
  "demo_rate_files =
    [''/s/tenants/demo/usage'' \<mapsto> Directory,
     ''/s/tenants/demo/usage/rate-limits.json'' \<mapsto>
       File (RateJson \<lparr>minuteWindow = [1793707199000, 1793707199500],
                       hourWindow = [1793707199000, 1793707199500],
                       lastCleanup = 1793707199500\<rparr>)]"

text \<open>The archive of scenario S7, with two benign entries.\<close>

definition demo_archive :: "(string \<times> ReadEntry) list" where
  "demo_archive =
    [(''./'', \<lparr>e_type = ''Directory'', e_linkpath = None\<rparr>),
     (''../escape.txt'', \<lparr>e_type = ''File'', e_linkpath = None\<rparr>),
     (''inner'', \<lparr>e_type = ''SymbolicLink'', e_linkpath = Some ''../../escape''\<rparr>),
     (''workspace/a.txt'', \<lparr>e_type = ''File'', e_linkpath = None\<rparr>)]"

section \<open>Facts about strings\<close>

lemma startsWith_append: "startsWith (p @ s) p"
  by (simp add: startsWith_def)

lemma includes_here: "startsWith s n \<Longrightarrow> str_includes s n"
  by (cases s) (auto simp: startsWith_def)

lemma includes_append_left: "str_includes s n \<Longrightarrow> str_includes (p @ s) n"
  by (induction p) simp_all

lemma includes_infix: "str_includes (p @ n @ s) n"
  by (rule includes_append_left) (rule includes_here, rule startsWith_append)

lemma endsWith_append: "endsWith (a @ b) b"
  by (simp add: endsWith_def)

lemma str_split_nonempty: "str_split c s \<noteq> []"
  by (induction s) (auto split: list.splits)

lemma str_split_none: "c \<notin> set s \<Longrightarrow> str_split c s = [s]"
  by (induction s) auto

lemma str_split_append:
  "c \<notin> set a \<Longrightarrow> str_split c (a @ c # b) = a # str_split c b"
  by (induction a) (auto split: list.splits)

lemma str_split_append_gen:
  "str_split c (a @ c # b) = str_split c a @ str_split c b"
  by (induction a) (auto split: list.splits simp: str_split_nonempty)

lemma str_join_split: "str_join [c] (str_split c s) = s"
proof (induction s)
  case Nil
  then show ?case by simp
next
  case (Cons x xs)
  show ?case
  proof (cases "x = c")
    case True
    then show ?thesis using Cons str_split_nonempty [of c xs]
      by (cases "str_split c xs") auto
  next
    case False
    then show ?thesis using Cons str_split_nonempty [of c xs]
      by (cases "str_split c xs"; cases "tl (str_split c xs)") auto
  qed
qed

lemma str_join_append:
  "zs \<noteq> [] \<Longrightarrow> ys \<noteq> []
    \<Longrightarrow> str_join sep (zs @ ys) = str_join sep zs @ sep @ str_join sep ys"
proof (induction zs)
  case Nil
  then show ?case by simp
next
  case (Cons z zs)
  then show ?case by (cases zs; cases ys) auto
qed

section \<open>Facts about paths\<close>

lemma normalizeString_append:
  "normalizeString ab acc (xs @ ys) = normalizeString ab (rev (normalizeString ab acc xs)) ys"
  by (induction ab acc xs rule: normalizeString.induct) (auto split: list.splits)

lemma normalizeString_plain:
  "list_all plain_segment ys \<Longrightarrow> normalizeString ab acc ys = rev acc @ ys"
  by (induction ys arbitrary: acc) (auto simp: plain_segment_def)

lemma posix_normalize_absolute:
  assumes "isAbsolute p" and "last p \<noteq> CHR ''/''"
    and "normalizeString False [] (str_split CHR ''/'' p) = segs"
    and "str_join ''/'' segs \<noteq> []"
  shows "posix_normalize p = ''/'' @ str_join ''/'' segs"
proof -
  have "p \<noteq> []" using assms(1) by (auto simp: isAbsolute_def)
  then show ?thesis using assms by (simp add: posix_normalize_def Let_def)
qed

lemma str_split_no_sep: "\<forall>s \<in> set (str_split c x). c \<notin> set s"
  by (induction x) (auto split: list.splits)

lemma normalizeString_False_plain:
  "list_all plain_segment acc \<Longrightarrow> \<forall>s \<in> set xs. CHR ''/'' \<notin> set s
    \<Longrightarrow> list_all plain_segment (normalizeString False acc xs)"
proof (induction xs arbitrary: acc)
  case Nil
  then show ?case by (simp add: list_all_iff)
next
  case (Cons x xs)
  show ?case
  proof (cases "x = [] \<or> x = ''.''")
    case True
    then show ?thesis using Cons by auto
  next
    case False
    show ?thesis
    proof (cases "x = ''..''")
      case True
      then show ?thesis using Cons by (cases acc) (auto simp: plain_segment_def)
    next
      case nd: False
      have "plain_segment x" using False nd Cons.prems(2) by (simp add: plain_segment_def)
      then have "list_all plain_segment (x # acc)" using Cons.prems(1) by simp
      then have "list_all plain_segment (normalizeString False (x # acc) xs)"
        using Cons.IH Cons.prems(2) by simp
      then show ?thesis using False nd by simp
    qed
  qed
qed

lemma str_join_plain_nonempty:
  "segs \<noteq> [] \<Longrightarrow> list_all plain_segment segs \<Longrightarrow>
     str_join ''/'' segs \<noteq> [] \<and> hd (str_join ''/'' segs) \<noteq> CHR ''/''"
  by (cases segs; cases "tl segs"; cases "hd segs") (auto simp: plain_segment_def)

lemma str_split_join:
  "segs \<noteq> [] \<Longrightarrow> list_all plain_segment segs \<Longrightarrow>
     str_split CHR ''/'' (str_join ''/'' segs) = segs"
proof (induction segs)
  case Nil
  then show ?case by simp
next
  case (Cons s segs)
  show ?case
  proof (cases segs)
    case Nil
    then show ?thesis using Cons.prems by (simp add: str_split_none plain_segment_def)
  next
    case (Cons t ts)
    have "str_split CHR ''/'' (s @ CHR ''/'' # str_join ''/'' (t # ts))
        = s # str_split CHR ''/'' (str_join ''/'' (t # ts))"
      using Cons.prems by (intro str_split_append) (simp add: plain_segment_def)
    then show ?thesis using Cons Cons.IH Cons.prems by simp
  qed
qed

lemma str_join_plain_last:
  "segs \<noteq> [] \<Longrightarrow> list_all plain_segment segs \<Longrightarrow> last (str_join ''/'' segs) \<noteq> CHR ''/''"
proof (induction segs)
  case Nil
  then show ?case by simp
next
  case (Cons s segs)
  show ?case
  proof (cases segs)
    case Nil
    have "s \<noteq> []" "CHR ''/'' \<notin> set s" using Cons.prems(2) by (auto simp: plain_segment_def)
    then have "last s \<noteq> CHR ''/''" using last_in_set by metis
    then show ?thesis using Nil by simp
  next
    case (Cons t ts)
    then have "str_join ''/'' (t # ts) \<noteq> []"
      using Cons.prems(2) str_join_plain_nonempty [of "t # ts"] \<open>segs = t # ts\<close> by simp
    then show ?thesis using Cons Cons.IH Cons.prems by simp
  qed
qed

lemma posix_join_plain:
  assumes "segs \<noteq> []" "list_all plain_segment segs" "plain_segment s"
  shows "posix_join [''/'' @ str_join ''/'' segs, s] = ''/'' @ str_join ''/'' (segs @ [s])"
proof -
  let ?X = "segs @ [s]"
  have X: "?X \<noteq> []" "list_all plain_segment ?X" using assms by simp_all
  have j: "str_join ''/'' ?X = str_join ''/'' segs @ ''/'' @ s"
    using assms(1) str_join_append [of segs "[s]" "''/''"] by simp
  have sne: "s \<noteq> []" using assms(3) by (simp add: plain_segment_def)
  have p: "str_join ''/'' [''/'' @ str_join ''/'' segs, s] = ''/'' @ str_join ''/'' ?X"
    by (simp add: j)
  have abs: "isAbsolute (''/'' @ str_join ''/'' ?X)" by (simp add: isAbsolute_def)
  have "str_join ''/'' ?X \<noteq> []" using str_join_plain_nonempty [OF X] by simp
  then have lst: "last (''/'' @ str_join ''/'' ?X) \<noteq> CHR ''/''"
    using str_join_plain_last [OF X] by simp
  have "str_split CHR ''/'' ([] @ CHR ''/'' # str_join ''/'' ?X)
      = [] # str_split CHR ''/'' (str_join ''/'' ?X)"
    by (rule str_split_append) simp
  then have sp: "str_split CHR ''/'' (''/'' @ str_join ''/'' ?X) = [] # ?X"
    using str_split_join [OF X] by simp
  have ns: "normalizeString False [] (str_split CHR ''/'' (''/'' @ str_join ''/'' ?X)) = ?X"
    unfolding sp using normalizeString_plain [OF X(2), of False "[]"] by simp
  have ne: "str_join ''/'' ?X \<noteq> []" using str_join_plain_nonempty [OF X] by simp
  have "posix_join [''/'' @ str_join ''/'' segs, s]
      = posix_normalize (str_join ''/'' [''/'' @ str_join ''/'' segs, s])"
    using sne by (simp add: posix_join_def)
  also have "\<dots> = posix_normalize (''/'' @ str_join ''/'' ?X)" by (simp only: p)
  also have "\<dots> = ''/'' @ str_join ''/'' ?X"
    using abs lst ns ne by (rule posix_normalize_absolute)
  finally show ?thesis .
qed

lemma posix_dirname_plain:
  assumes "segs \<noteq> []" "list_all plain_segment segs" "plain_segment f"
  shows "posix_dirname (''/'' @ str_join ''/'' (segs @ [f])) = ''/'' @ str_join ''/'' segs"
proof -
  let ?J = "str_join ''/'' segs"
  have J: "?J \<noteq> []" using str_join_plain_nonempty [OF assms(1,2)] by simp
  have f: "f \<noteq> []" "CHR ''/'' \<notin> set f" using assms(3) by (auto simp: plain_segment_def)
  have j: "str_join ''/'' (segs @ [f]) = ?J @ CHR ''/'' # f"
    using assms(1) str_join_append [of segs "[f]" "''/''"] by simp
  have "hd (rev f) \<noteq> CHR ''/''" using f by (metis hd_rev last_in_set)
  then have d1: "dropWhile (\<lambda>x. x = CHR ''/'') (rev f @ CHR ''/'' # rev ?J)
      = rev f @ CHR ''/'' # rev ?J"
    using f(1) by (cases "rev f") auto
  have d2: "dropWhile (\<lambda>x. x \<noteq> CHR ''/'') (rev f @ CHR ''/'' # rev ?J) = CHR ''/'' # rev ?J"
    using f(2) by (subst dropWhile_append2) auto
  show ?thesis
    using J by (simp add: posix_dirname_def j d1 d2 Let_def)
qed

lemma tenant_dir_form:
  assumes "isAbsolute base" "plain_segment tid"
  shows "\<exists>segs. list_all plain_segment segs
      \<and> posix_join [base, ''tenants'', tid] = ''/'' @ str_join ''/'' (segs @ [''tenants'', tid])"
proof -
  let ?p = "base @ CHR ''/'' # (''tenants'' @ CHR ''/'' # tid)"
  define Z where "Z = normalizeString False [] (str_split CHR ''/'' base)"
  have Zp: "list_all plain_segment Z"
    unfolding Z_def using str_split_no_sep [of "CHR ''/''" base]
    by (intro normalizeString_False_plain) simp_all
  have ne: "base \<noteq> []" "tid \<noteq> []"
    using assms by (auto simp: isAbsolute_def plain_segment_def)
  have abs: "isAbsolute ?p" using assms(1) by (cases base) (auto simp: isAbsolute_def)
  have "last tid \<noteq> CHR ''/''"
    using assms(2) last_in_set [OF ne(2)] unfolding plain_segment_def by metis
  then have lst: "last ?p \<noteq> CHR ''/''"
    using ne(2) by simp
  have tsp: "str_split CHR ''/'' (''tenants'' @ CHR ''/'' # tid) = [''tenants'', tid]"
    using assms(2) by (subst str_split_append) (simp_all add: str_split_none plain_segment_def)
  have sp: "str_split CHR ''/'' ?p = str_split CHR ''/'' base @ [''tenants'', tid]"
    by (subst str_split_append_gen) (simp only: tsp)
  have pl: "list_all plain_segment [''tenants'', tid]"
    using assms(2) by (simp add: plain_segment_def)
  have ns: "normalizeString False [] (str_split CHR ''/'' ?p) = Z @ [''tenants'', tid]"
    unfolding sp normalizeString_append normalizeString_plain [OF pl] Z_def by simp
  have "list_all plain_segment (Z @ [''tenants'', tid])" using Zp pl by simp
  then have qne: "str_join ''/'' (Z @ [''tenants'', tid]) \<noteq> []"
    using str_join_plain_nonempty [of "Z @ [''tenants'', tid]"] by simp
  have "posix_join [base, ''tenants'', tid] = posix_normalize ?p"
    using ne by (simp add: posix_join_def)
  also have "\<dots> = ''/'' @ str_join ''/'' (Z @ [''tenants'', tid])"
    using abs lst ns qne by (rule posix_normalize_absolute)
  finally show ?thesis using Zp by blast
qed

text \<open>Under an absolute base directory a tenant's state directory ends with its id.\<close>

lemma join_tenants_suffix:
  assumes "isAbsolute base" "plain_segment tid"
  shows "\<exists>pre. posix_join [base, ''tenants'', tid] = pre @ ''/tenants/'' @ tid"
proof -
  obtain Z where
    j: "posix_join [base, ''tenants'', tid] = ''/'' @ str_join ''/'' (Z @ [''tenants'', tid])"
    using tenant_dir_form [OF assms] by blast
  show ?thesis
  proof (cases "Z = []")
    case True
    then show ?thesis using j by simp
  next
    case False
    then have "str_join ''/'' (Z @ [''tenants'', tid])
        = str_join ''/'' Z @ ''/'' @ str_join ''/'' [''tenants'', tid]"
      by (rule str_join_append) simp
    then show ?thesis using j by simp
  qed
qed

section \<open>Facts about tenant ids and tokens\<close>

lemma valid_id_chars:
  assumes "isValidTenantId tid"
  shows "tid \<noteq> []" and "\<forall>c \<in> set tid. id_char c"
  using assms by (auto simp: isValidTenantId_def id_char_def list_all_iff split: list.splits)

lemma id_char_not_sep:
  "id_char c \<Longrightarrow> c \<noteq> CHR '':'' \<and> c \<noteq> CHR ''/'' \<and> c \<noteq> CHR ''.''"
  by (auto simp: id_char_def lower_alnum_def)

lemma valid_id_plain: "isValidTenantId tid \<Longrightarrow> plain_segment tid"
  using valid_id_chars [of tid] id_char_not_sep
  by (cases tid) (auto simp: plain_segment_def)

lemma valid_id_no_colon: "isValidTenantId tid \<Longrightarrow> CHR '':'' \<notin> set tid"
  using valid_id_chars [of tid] id_char_not_sep by blast

lemma parse_build:
  assumes "tid \<noteq> []" "CHR '':'' \<notin> set tid" "secret \<noteq> []"
  shows "parseTenantToken (buildTenantToken tid secret) = Some (tid, secret)"
proof -
  have sp: "str_split CHR '':'' (''tenant'' @ CHR '':'' # (tid @ CHR '':'' # secret))
      = ''tenant'' # tid # str_split CHR '':'' secret"
    using assms(2) by (subst str_split_append, simp, subst str_split_append, simp_all)
  obtain r rest where r: "str_split CHR '':'' secret = r # rest"
    using str_split_nonempty [of "CHR '':''" secret] by (cases "str_split CHR '':'' secret") auto
  have j: "str_join '':'' (r # rest) = secret"
    using str_join_split [of "CHR '':''" secret] r by simp
  have "buildTenantToken tid secret = ''tenant'' @ CHR '':'' # (tid @ CHR '':'' # secret)"
    by (simp add: buildTenantToken_def)
  then show ?thesis using sp r j assms
    by (simp add: parseTenantToken_def startsWith_def buildTenantToken_def)
qed

section \<open>Method authorization: the tenant allow-list\<close>

text \<open>
  The two node-role methods outside the tenant allow-list are refused by the role check,
  which comes first, so a tenant connection sees the role error for them.
\<close>

lemma node_role_not_tenant:
  "M \<in> set NODE_ROLE_METHODS \<Longrightarrow> M \<notin> set TENANT_ALLOWED_METHODS
    \<Longrightarrow> M = ''node.invoke.result'' \<or> M = ''node.event''"
  by (auto simp: NODE_ROLE_METHODS_def TENANT_ALLOWED_METHODS_def)

text \<open>
  Claim C1, as the code has it. For every method \<open>M\<close> outside the tenant allow-list and
  every connection of role operator (given or defaulted) that carries a non-empty tenant
  id, \<open>authorizeGatewayMethod\<close> returns an error of code \<open>INVALID_REQUEST\<close>, whatever
  the scopes (also with \<open>operator.admin\<close>). Its message is
  \<open>method not available for tenant token: M\<close>, except for a node-role method
  (\<open>node.invoke.result\<close>, \<open>node.event\<close>), where the earlier role check answers
  \<open>unauthorized role: operator\<close>.
\<close>

theorem C1_tenant_allow_list:
  assumes "connect cl = Some conn"
    and "role conn = None \<or> role conn = Some ''operator''"
    and "tenantId cl = Some t" and "t \<noteq> []"
    and "M \<notin> set TENANT_ALLOWED_METHODS"
  shows "\<exists>e. authorizeGatewayMethod M (Some cl) = Some e
      \<and> code e = INVALID_REQUEST
      \<and> (if M \<in> set NODE_ROLE_METHODS
         then message e = ''unauthorized role: operator''
         else message e = ''method not available for tenant token: '' @ M
              \<and> str_includes (message e) ''method not available for tenant token'')"
proof -
  have r: "(case role conn of None \<Rightarrow> ''operator'' | Some x \<Rightarrow> x) = ''operator''"
    using assms(2) by auto
  have inc: "str_includes (''method not available for tenant token: '' @ M)
      ''method not available for tenant token''"
    using includes_infix [of "[]" "''method not available for tenant token''" "'': '' @ M"]
    by simp
  show ?thesis
  proof (cases "M \<in> set NODE_ROLE_METHODS")
    case True
    then show ?thesis
      using assms(1) r by (simp add: authorizeGatewayMethod_def errorShape_def)
  next
    case False
    then show ?thesis
      using assms(1,3,4,5) r inc
      by (simp add: authorizeGatewayMethod_def errorShape_def truthy_def)
  qed
qed

theorem C1_tenant_allow_list_witness:
  "\<exists>e. authorizeGatewayMethod ''wizard.start''
        (Some \<lparr>connect = Some \<lparr>role = Some ''operator'',
                 scopes = Some [''operator.read'', ''operator.write'', ''operator.admin'']\<rparr>,
               connId = None, tenantId = Some ''tenant-a''\<rparr>) = Some e
      \<and> code e = INVALID_REQUEST
      \<and> message e = ''method not available for tenant token: wizard.start''
      \<and> str_includes (message e) ''method not available for tenant token''"
  using C1_tenant_allow_list [of
      "\<lparr>connect = Some \<lparr>role = Some ''operator'',
          scopes = Some [''operator.read'', ''operator.write'', ''operator.admin'']\<rparr>,
        connId = None, tenantId = Some ''tenant-a''\<rparr>"
      "\<lparr>role = Some ''operator'',
        scopes = Some [''operator.read'', ''operator.write'', ''operator.admin'']\<rparr>"
      "''tenant-a''" "''wizard.start''"]
  by (simp add: TENANT_ALLOWED_METHODS_def NODE_ROLE_METHODS_def)

theorem C1_node_event_counterexample:
  "''node.event'' \<notin> set TENANT_ALLOWED_METHODS
   \<and> authorizeGatewayMethod ''node.event''
        (Some \<lparr>connect = Some \<lparr>role = Some ''operator'', scopes = Some [''operator.admin'']\<rparr>,
               connId = None, tenantId = Some ''tenant-a''\<rparr>)
      = Some (errorShape INVALID_REQUEST ''unauthorized role: operator'')
   \<and> \<not> str_includes ''unauthorized role: operator'' ''method not available for tenant token''"
  by (simp add: authorizeGatewayMethod_def TENANT_ALLOWED_METHODS_def NODE_ROLE_METHODS_def
      startsWith_def)

section \<open>Terminal sessions: ownership\<close>

lemma map_of_sessions_owned:
  "sessions_owned sessions \<Longrightarrow> map_of sessions k = Some s \<Longrightarrow> s_tenantId s \<noteq> []"
  by (induction sessions) (auto simp: sessions_owned_def split: if_splits)

lemma sessions_owned_update:
  "sessions_owned sessions \<Longrightarrow> s_tenantId s \<noteq> []
    \<Longrightarrow> sessions_owned (AList.update k s sessions)"
  by (induction sessions) (auto simp: sessions_owned_def)

text \<open>Spawning and writing keep the invariant; the empty map has it.\<close>

lemma sessions_owned_empty: "sessions_owned []"
  by (simp add: sessions_owned_def)

lemma terminal_spawn_owned:
  "sessions_owned sessions \<Longrightarrow>
   sessions_owned (snd (terminal_spawn spawner uuid now client params sessions))"
  by (auto simp: terminal_spawn_def Let_def sessions_owned_update
      split: option.splits sum.splits)

lemma terminal_write_owned:
  "sessions_owned sessions \<Longrightarrow>
   sessions_owned (snd (terminal_write now client params sessions))"
  by (auto simp: terminal_write_def Let_def
       intro!: sessions_owned_update dest: map_of_sessions_owned
       split: option.splits sum.splits)

text \<open>
  Claim C2, as the code has it. Let terminal \<open>T\<close> be in the session map, owned by tenant
  \<open>A\<close>. A \<open>terminal.write\<close> from a connection without the \<open>operator.admin\<close> scope whose
  tenant id is not \<open>A\<close> (another tenant's, or none) is answered with \<open>UNAUTHORIZED\<close>,
  and the session map is left as it was: nothing is forwarded to the PTY and
  \<open>lastActivityAt\<close> keeps its value. A connection that holds \<open>operator.admin\<close> passes
  the check whatever its tenant id: when the PTY accepts the write, the data is forwarded
  and \<open>lastActivityAt\<close> is set.
\<close>

theorem C2_cross_tenant_write:
  assumes "map_of sessions T = Some s" and "T \<noteq> []"
  shows "(\<not> hasAdminScope client \<and> getTenantId client \<noteq> Some (s_tenantId s) \<longrightarrow>
            terminal_write now client \<lparr>terminalId = Some T, data = Some d\<rparr> sessions
              = (Response False None (Some (errorShape UNAUTHORIZED ''Access denied'')),
                 sessions))
       \<and> (hasAdminScope client \<and> writeThrows (s_pty s) = None \<longrightarrow>
            terminal_write now client \<lparr>terminalId = Some T, data = Some d\<rparr> sessions
              = (Response True (Some (WrittenPayload (length d))) None,
                 AList.update T
                   (s\<lparr>s_pty := (s_pty s)\<lparr>written := written (s_pty s) @ [d]\<rparr>,
                      s_lastActivityAt := now\<rparr>) sessions))"
  using assms by (auto simp: terminal_write_def Let_def pty_write_def)

theorem C2_cross_tenant_write_witness:
  "terminal_write 5
      (Some \<lparr>connect = Some \<lparr>role = Some ''operator'',
                scopes = Some [''operator.read'', ''operator.write'']\<rparr>,
             connId = Some ''c2'', tenantId = Some ''tenant-b''\<rparr>)
      \<lparr>terminalId = Some ''t1'', data = Some ''x''\<rparr>
      [(''t1'', \<lparr>s_terminalId = ''t1'', s_tenantId = ''tenant-a'', s_connId = ''c1'',
                s_pty = \<lparr>pid = 7, written = [], writeThrows = None\<rparr>,
                s_createdAt = 0, s_lastActivityAt = 0\<rparr>)]
    = (Response False None (Some (errorShape UNAUTHORIZED ''Access denied'')),
       [(''t1'', \<lparr>s_terminalId = ''t1'', s_tenantId = ''tenant-a'', s_connId = ''c1'',
                 s_pty = \<lparr>pid = 7, written = [], writeThrows = None\<rparr>,
                 s_createdAt = 0, s_lastActivityAt = 0\<rparr>)])
   \<and> terminal_write 5
      (Some \<lparr>connect = Some \<lparr>role = Some ''operator'', scopes = Some [''operator.admin'']\<rparr>,
             connId = Some ''c0'', tenantId = None\<rparr>)
      \<lparr>terminalId = Some ''t1'', data = Some ''x''\<rparr>
      [(''t1'', \<lparr>s_terminalId = ''t1'', s_tenantId = ''tenant-a'', s_connId = ''c1'',
                s_pty = \<lparr>pid = 7, written = [], writeThrows = None\<rparr>,
                s_createdAt = 0, s_lastActivityAt = 0\<rparr>)]
    = (Response True (Some (WrittenPayload 1)) None,
       [(''t1'', \<lparr>s_terminalId = ''t1'', s_tenantId = ''tenant-a'', s_connId = ''c1'',
                 s_pty = \<lparr>pid = 7, written = [''x''], writeThrows = None\<rparr>,
                 s_createdAt = 0, s_lastActivityAt = 5\<rparr>)])"
  using
    C2_cross_tenant_write [of
      "[(''t1'', \<lparr>s_terminalId = ''t1'', s_tenantId = ''tenant-a'', s_connId = ''c1'',
                 s_pty = \<lparr>pid = 7, written = [], writeThrows = None\<rparr>,
                 s_createdAt = 0, s_lastActivityAt = 0\<rparr>)]"
      "''t1''"
      "\<lparr>s_terminalId = ''t1'', s_tenantId = ''tenant-a'', s_connId = ''c1'',
        s_pty = \<lparr>pid = 7, written = [], writeThrows = None\<rparr>,
        s_createdAt = 0, s_lastActivityAt = 0\<rparr>"
      "Some \<lparr>connect = Some \<lparr>role = Some ''operator'',
                scopes = Some [''operator.read'', ''operator.write'']\<rparr>,
             connId = Some ''c2'', tenantId = Some ''tenant-b''\<rparr>"
      5 "''x''"]
    C2_cross_tenant_write [of
      "[(''t1'', \<lparr>s_terminalId = ''t1'', s_tenantId = ''tenant-a'', s_connId = ''c1'',
                 s_pty = \<lparr>pid = 7, written = [], writeThrows = None\<rparr>,
                 s_createdAt = 0, s_lastActivityAt = 0\<rparr>)]"
      "''t1''"
      "\<lparr>s_terminalId = ''t1'', s_tenantId = ''tenant-a'', s_connId = ''c1'',
        s_pty = \<lparr>pid = 7, written = [], writeThrows = None\<rparr>,
        s_createdAt = 0, s_lastActivityAt = 0\<rparr>"
      "Some \<lparr>connect = Some \<lparr>role = Some ''operator'', scopes = Some [''operator.admin'']\<rparr>,
             connId = Some ''c0'', tenantId = None\<rparr>"
      5 "''x''"]
  by (simp add: hasAdminScope_def getTenantId_def)

text \<open>
  The claim as written fails: a tenant-authenticated connection of tenant B that holds
  \<open>operator.admin\<close> writes to tenant A's terminal.
\<close>

theorem C2_tenant_admin_counterexample:
  "terminal_write 5
      (Some \<lparr>connect = Some \<lparr>role = Some ''operator'', scopes = Some [''operator.admin'']\<rparr>,
             connId = Some ''c2'', tenantId = Some ''tenant-b''\<rparr>)
      \<lparr>terminalId = Some ''t1'', data = Some ''x''\<rparr>
      [(''t1'', \<lparr>s_terminalId = ''t1'', s_tenantId = ''tenant-a'', s_connId = ''c1'',
                s_pty = \<lparr>pid = 7, written = [], writeThrows = None\<rparr>,
                s_createdAt = 0, s_lastActivityAt = 0\<rparr>)]
    = (Response True (Some (WrittenPayload 1)) None,
       [(''t1'', \<lparr>s_terminalId = ''t1'', s_tenantId = ''tenant-a'', s_connId = ''c1'',
                 s_pty = \<lparr>pid = 7, written = [''x''], writeThrows = None\<rparr>,
                 s_createdAt = 0, s_lastActivityAt = 5\<rparr>)])"
  by (simp add: terminal_write_def hasAdminScope_def getTenantId_def pty_write_def)

text \<open>
  Claim C10. In every state of the session map in which each stored session carries the
  non-empty tenant id that \<open>terminal.spawn\<close> requires, \<open>terminal.list\<close> called by a
  connection with no tenant id (absent or empty) and without the \<open>operator.admin\<close> scope
  answers with an empty \<open>sessions\<close> array.
\<close>

theorem C10_tenantless_list_empty:
  assumes "sessions_owned sessions"
    and "\<not> truthy (getTenantId client)"
    and "\<not> hasAdminScope client"
  shows "terminal_list client sessions = Response True (Some (SessionsPayload [])) None"
proof -
  have "filter (\<lambda>s. Some (s_tenantId s) = getTenantId client) (map snd sessions) = []"
    using assms(1,2)
    by (auto simp: filter_empty_conv sessions_owned_def list_all_iff truthy_def
        split: option.splits)
  then show ?thesis using assms(3) by (simp add: terminal_list_def Let_def)
qed

theorem C10_tenantless_list_empty_witness:
  "terminal_list
      (Some \<lparr>connect = Some \<lparr>role = Some ''operator'',
                scopes = Some [''operator.read'', ''operator.write'']\<rparr>,
             connId = Some ''c9'', tenantId = None\<rparr>)
      [(''t1'', \<lparr>s_terminalId = ''t1'', s_tenantId = ''tenant-a'', s_connId = ''c1'',
                s_pty = \<lparr>pid = 7, written = [], writeThrows = None\<rparr>,
                s_createdAt = 0, s_lastActivityAt = 0\<rparr>),
       (''t2'', \<lparr>s_terminalId = ''t2'', s_tenantId = ''tenant-b'', s_connId = ''c2'',
                s_pty = \<lparr>pid = 8, written = [], writeThrows = None\<rparr>,
                s_createdAt = 1, s_lastActivityAt = 1\<rparr>)]
    = Response True (Some (SessionsPayload [])) None"
  using C10_tenantless_list_empty [of
      "[(''t1'', \<lparr>s_terminalId = ''t1'', s_tenantId = ''tenant-a'', s_connId = ''c1'',
                 s_pty = \<lparr>pid = 7, written = [], writeThrows = None\<rparr>,
                 s_createdAt = 0, s_lastActivityAt = 0\<rparr>),
        (''t2'', \<lparr>s_terminalId = ''t2'', s_tenantId = ''tenant-b'', s_connId = ''c2'',
                 s_pty = \<lparr>pid = 8, written = [], writeThrows = None\<rparr>,
                 s_createdAt = 1, s_lastActivityAt = 1\<rparr>)]"
      "Some \<lparr>connect = Some \<lparr>role = Some ''operator'',
                scopes = Some [''operator.read'', ''operator.write'']\<rparr>,
             connId = Some ''c9'', tenantId = None\<rparr>"]
  by (simp add: sessions_owned_def truthy_def getTenantId_def hasAdminScope_def)

section \<open>Tenant registry: creating and validating\<close>

text \<open>
  For a valid tenant id that \<open>registry.tenants[tenantId]\<close> does not find, under an
  absolute state directory and with a non-empty secret, \<open>createTenant\<close> returns a token
  that \<open>validateTenantToken\<close> accepts: the context carries the tenant id, and its
  state directory ends with \<open>/tenants/{tenantId}\<close>.
\<close>

lemma createTenant_validate_roundtrip:
  assumes "isValidTenantId tid" and "obj_get reg tid = Undefined"
    and "secret \<noteq> []" and "isAbsolute baseDir"
  shows "\<exists>res reg' ctx reg''.
      createTenant sha256hex secret t0 tid dname reg = Inr (res, reg')
    \<and> r_tenantId res = tid
    \<and> validateTenantToken sha256hex t1 baseDir (r_token res) reg' = Inr (Some ctx, reg'')
    \<and> ctx_tenantId ctx = tid
    \<and> endsWith (ctx_stateDir ctx) (''/tenants/'' @ tid)"
proof -
  have ne: "tid \<noteq> []" using assms(1) by (rule valid_id_chars)
  have pb: "parseTenantToken (buildTenantToken tid secret) = Some (tid, secret)"
    using ne valid_id_no_colon [OF assms(1)] assms(3) by (rule parse_build)
  obtain pre where pre: "posix_join [baseDir, ''tenants'', tid] = pre @ ''/tenants/'' @ tid"
    using join_tenants_suffix [OF assms(4) valid_id_plain [OF assms(1)]] by blast
  have sd: "endsWith (resolveTenantStateDir baseDir (Some tid)) (''/tenants/'' @ tid)"
    using ne pre endsWith_append [of pre "''/tenants/'' @ tid"]
    by (simp add: resolveTenantStateDir_def truthy_def)
  show ?thesis
    using assms(1,2) pb sd
    by (simp add: createTenant_def validateTenantToken_def obj_get_def safeEqualHash_def Let_def)
qed

text \<open>
  Claim C4 says this of every valid tenant id that is not yet registered. The id
  \<open>constructor\<close> matches the pattern, and the empty registry holds no such tenant, yet
  \<open>registry.tenants["constructor"]\<close> finds the property that every object inherits,
  and \<open>createTenant\<close> throws "Tenant already exists": no token is returned.
\<close>

theorem C4_constructor_rejected:
  "isValidTenantId ''constructor''
   \<and> (Map.empty :: tenants) ''constructor'' = None
   \<and> createTenant sha256hex secret t0 ''constructor'' dname Map.empty
      = Inl (Error (''Tenant already exists: '' @ [CHR 0x22] @ ''constructor'' @ [CHR 0x22]))"
  by (simp add: createTenant_def isValidTenantId_def lower_alnum_def id_char_def obj_get_def
      Object_prototype_keys_def)

text \<open>
  A token of a registered tenant with another secret is refused whenever the two secrets
  have different hashes; the time the comparison takes is not modelled.
\<close>

lemma validate_other_secret:
  assumes "reg tid = Some entry" and "tokenHash entry = sha256hex secret"
    and "tid \<noteq> []" and "CHR '':'' \<notin> set tid" and "secret' \<noteq> []"
    and "sha256hex secret' \<noteq> sha256hex secret"
  shows "validateTenantToken sha256hex t1 baseDir (buildTenantToken tid secret') reg
      = Inr (None, reg)"
  using assms parse_build [of tid secret']
  by (simp add: validateTenantToken_def obj_get_def safeEqualHash_def)

section \<open>Usage tracking: the monthly rollover\<close>

text \<open>The current period is a month label in every year of four digits.\<close>

lemma digit_char_digit: "is_digit (digit_char n)"
proof -
  have "n mod 10 < length ''0123456789''" by simp
  then have "''0123456789'' ! (n mod 10) \<in> set ''0123456789''" by (rule nth_mem)
  then show ?thesis unfolding is_digit_def digit_char_def .
qed

lemma show_nat_one: "n < 10 \<Longrightarrow> show_nat n = [digit_char n]"
  by (subst show_nat.simps) simp

lemma show_nat_step: "10 \<le> n \<Longrightarrow> show_nat n = show_nat (n div 10) @ [digit_char n]"
  by (subst show_nat.simps) simp

lemma show_nat_two: "10 \<le> n \<Longrightarrow> n < 100 \<Longrightarrow> show_nat n = [digit_char (n div 10), digit_char n]"
  by (simp add: show_nat_step show_nat_one)

lemma show_nat_four:
  assumes "1000 \<le> n" "n < 10000"
  shows "show_nat n = [digit_char (n div 1000), digit_char (n div 100), digit_char (n div 10),
                       digit_char n]"
proof -
  have d: "n div 10 div 10 = n div 100" "n div 100 div 10 = n div 1000"
    by (simp_all add: div_mult2_eq [symmetric])
  have 1: "show_nat n = show_nat (n div 10) @ [digit_char n]"
    using assms by (intro show_nat_step) simp
  have 2: "show_nat (n div 10) = show_nat (n div 100) @ [digit_char (n div 10)]"
    using assms show_nat_step [of "n div 10"] by (simp add: d)
  have 3: "show_nat (n div 100) = [digit_char (n div 1000), digit_char (n div 100)]"
    using assms show_nat_two [of "n div 100"] by (simp add: d)
  show ?thesis by (simp add: 1 2 3)
qed

lemma show_nat_length: "10 \<le> n \<Longrightarrow> 2 \<le> length (show_nat n)"
proof -
  assume a: "10 \<le> n"
  have "show_nat (n div 10) \<noteq> []" by (subst show_nat.simps) simp
  then have "1 \<le> length (show_nat (n div 10))" by (cases "show_nat (n div 10)") auto
  then show ?thesis using a by (simp add: show_nat_step)
qed

lemma getCurrentPeriod_form:
  "getCurrentPeriod rt
    = show_nat (rt_year rt) @ ''-'' @ (if rt_month rt < 9 then ''0'' else [])
        @ show_nat (rt_month rt + 1)"
proof (cases "rt_month rt < 9")
  case True
  then show ?thesis by (simp add: getCurrentPeriod_def padStart2_def show_nat_one)
next
  case False
  then have "2 \<le> length (show_nat (rt_month rt + 1))" by (intro show_nat_length) simp
  then show ?thesis using False by (simp add: getCurrentPeriod_def padStart2_def)
qed

lemma getCurrentPeriod_label:
  assumes "1000 \<le> rt_year rt" "rt_year rt \<le> 9999" "rt_month rt < 12"
  shows "is_month_label (getCurrentPeriod rt)"
proof (cases "rt_month rt < 9")
  case True
  have "is_digit CHR ''0''" by (simp add: is_digit_def)
  then show ?thesis using True assms
    by (simp add: getCurrentPeriod_form show_nat_four show_nat_one is_month_label_def
        digit_char_digit)
next
  case False
  then show ?thesis using assms
    by (simp add: getCurrentPeriod_form show_nat_four show_nat_two is_month_label_def
        digit_char_digit)
qed

lemma digit_not_slash: "is_digit c \<Longrightarrow> c \<noteq> CHR ''/''"
  by (auto simp: is_digit_def)

lemma month_label_chars:
  "is_month_label m \<Longrightarrow> length m = 7 \<and> (\<forall>c \<in> set m. is_digit c \<or> c = CHR ''-'')"
  by (auto simp: is_month_label_def split: list.splits)

lemma month_label_plain:
  assumes "is_month_label m"
  shows "plain_segment (m @ ''.json'')"
proof -
  have l: "length m = 7" and c: "\<forall>c \<in> set m. is_digit c \<or> c = CHR ''-''"
    using month_label_chars [OF assms] by auto
  have s: "CHR ''/'' \<notin> set m" using c digit_not_slash by auto
  have n: "length (m @ ''.json'') = 12" using l by simp
  have 1: "m @ ''.json'' \<noteq> ''.''"
  proof
    assume "m @ ''.json'' = ''.''"
    from arg_cong [OF this, of length] show False using n by simp
  qed
  have 2: "m @ ''.json'' \<noteq> ''..''"
  proof
    assume "m @ ''.json'' = ''..''"
    from arg_cong [OF this, of length] show False using n by simp
  qed
  show ?thesis using s 1 2 by (simp add: plain_segment_def)
qed

text \<open>The usage directory of a tenant and the files in it.\<close>

lemma usage_dir_form:
  assumes "isAbsolute base" "isValidTenantId tid"
  shows "\<exists>segs. segs \<noteq> [] \<and> list_all plain_segment segs
      \<and> resolveTenantUsageDir base tid = ''/'' @ str_join ''/'' segs
      \<and> endsWith (resolveTenantUsageDir base tid) (''/tenants/'' @ tid @ ''/usage'')"
proof -
  have pt: "plain_segment tid" using assms(2) by (rule valid_id_plain)
  then have t: "truthy (Some tid)" by (simp add: truthy_def plain_segment_def)
  obtain Z where Z: "list_all plain_segment Z"
    and j: "posix_join [base, ''tenants'', tid] = ''/'' @ str_join ''/'' (Z @ [''tenants'', tid])"
    using tenant_dir_form [OF assms(1) pt] by blast
  let ?A = "Z @ [''tenants'', tid]"
  have A: "?A \<noteq> []" "list_all plain_segment ?A"
    using Z pt by (simp_all add: plain_segment_def)
  have u: "plain_segment ''usage''" by (simp add: plain_segment_def)
  have d: "resolveTenantUsageDir base tid = ''/'' @ str_join ''/'' (?A @ [''usage''])"
    using t j posix_join_plain [OF A u]
    by (simp add: resolveTenantUsageDir_def resolveTenantStateDir_def)
  have B: "?A @ [''usage''] \<noteq> []" "list_all plain_segment (?A @ [''usage''])"
    using A u by simp_all
  have e: "\<exists>pre. ''/'' @ str_join ''/'' (?A @ [''usage'']) = pre @ ''/tenants/'' @ tid @ ''/usage''"
  proof (cases "Z = []")
    case True
    then show ?thesis by simp
  next
    case False
    then have "str_join ''/'' (Z @ [''tenants'', tid, ''usage''])
        = str_join ''/'' Z @ ''/'' @ str_join ''/'' [''tenants'', tid, ''usage'']"
      by (rule str_join_append) simp
    then show ?thesis by simp
  qed
  then obtain pre where
    "resolveTenantUsageDir base tid = pre @ (''/tenants/'' @ tid @ ''/usage'')"
    using d by auto
  then have "endsWith (resolveTenantUsageDir base tid) (''/tenants/'' @ tid @ ''/usage'')"
    using endsWith_append [of pre "''/tenants/'' @ tid @ ''/usage''"] by simp
  then show ?thesis using B d by blast
qed

lemma usage_file_path:
  assumes "isAbsolute base" "isValidTenantId tid" "plain_segment f"
  shows "posix_join [resolveTenantUsageDir base tid, f] = resolveTenantUsageDir base tid @ ''/'' @ f"
    and "posix_dirname (resolveTenantUsageDir base tid @ ''/'' @ f) = resolveTenantUsageDir base tid"
proof -
  obtain segs where s: "segs \<noteq> []" "list_all plain_segment segs"
    and d: "resolveTenantUsageDir base tid = ''/'' @ str_join ''/'' segs"
    using usage_dir_form [OF assms(1,2)] by blast
  have j: "str_join ''/'' (segs @ [f]) = str_join ''/'' segs @ ''/'' @ f"
    using s(1) str_join_append [of segs "[f]" "''/''"] by simp
  show "posix_join [resolveTenantUsageDir base tid, f] = resolveTenantUsageDir base tid @ ''/'' @ f"
    unfolding d using posix_join_plain [OF s assms(3)] by (simp add: j)
  show "posix_dirname (resolveTenantUsageDir base tid @ ''/'' @ f) = resolveTenantUsageDir base tid"
    unfolding d using posix_dirname_plain [OF s assms(3)] by (simp add: j)
qed

lemma history_path_form:
  assumes "isAbsolute base" "isValidTenantId tid" "is_month_label m"
  shows "resolveTenantUsageHistoryPath base tid m = resolveTenantUsageDir base tid @ ''/'' @ m @ ''.json''"
    and "posix_dirname (resolveTenantUsageDir base tid @ ''/'' @ m @ ''.json'')
          = resolveTenantUsageDir base tid"
  using usage_file_path [OF assms(1,2) month_label_plain [OF assms(3)]]
  by (simp_all add: resolveTenantUsageHistoryPath_def)

lemma archive_month:
  assumes "isAbsolute (rt_stateDir rt)" "isValidTenantId tid" "is_month_label m"
    and "fs (resolveTenantUsageDir (rt_stateDir rt) tid) = Some Directory"
    and "fs (resolveTenantUsageDir (rt_stateDir rt) tid @ ''/'' @ m @ ''.json'') \<noteq> Some Directory"
  shows "archiveContent rt tid m content fs
    = (None, fs(resolveTenantUsageDir (rt_stateDir rt) tid @ ''/'' @ m @ ''.json''
                  \<mapsto> File content))"
proof -
  have mk: "mkdir_recursive (resolveTenantUsageDir (rt_stateDir rt) tid) fs = (None, fs)"
    using assms(4) by (simp add: mkdir_recursive_def isDirectory_def)
  have wr: "writeFile (resolveTenantUsageDir (rt_stateDir rt) tid @ ''/'' @ m @ ''.json'') content fs
      = Inr (fs(resolveTenantUsageDir (rt_stateDir rt) tid @ ''/'' @ m @ ''.json'' \<mapsto> File content))"
    unfolding writeFile_def history_path_form(2) [OF assms(1,2,3)]
    using assms(4,5) by (simp add: isDirectory_def)
  show ?thesis
    unfolding archiveContent_def mk history_path_form(1) [OF assms(1,2,3)]
    using wr by simp
qed

lemma demo_period: "getCurrentPeriod demo_rt = ''2026-11''"
  by code_simp

lemma demo_now: "rt_now demo_rt = 1793707200000"
  by (simp add: demo_rt_def)

lemma demo_usage_dir: "resolveTenantUsageDir (rt_stateDir demo_rt) ''demo'' = ''/s/tenants/demo/usage''"
  by code_simp

lemma demo_current_path:
  "resolveTenantUsageCurrentPath (rt_stateDir demo_rt) ''demo''
    = ''/s/tenants/demo/usage/current.json''"
  by code_simp

lemma demo_rate_path:
  "resolveTenantRateLimitPath (rt_stateDir demo_rt) ''demo''
    = ''/s/tenants/demo/usage/rate-limits.json''"
  by code_simp

text \<open>
  Claim C6. The stored usage snapshot of a tenant has a period \<open>m'\<close>, a month label
  \<open>YYYY-MM\<close>, other than the current period \<open>m\<close>. Then \<open>loadTenantUsage\<close> writes
  the old snapshot, unchanged, to the history path, which is the file \<open>{m'}.json\<close> in
  the tenant's usage directory \<open>tenants/{tenantId}/usage\<close>, and to no other path, and
  returns a fresh snapshot of the tenant whose period is \<open>m\<close>, the year, a hyphen and
  the number of the month in two digits, and in which every counter (tokens, cost, disk,
  sessions, messages, requests, sandbox metrics) is zero. The state directory is
  absolute and the tenant id valid; the usage directory exists, as it does when it holds
  the stored snapshot, and no directory stands at the history path.
\<close>

theorem C6_period_rollover:
  assumes "isValidTenantId tid" and "isAbsolute (rt_stateDir rt)"
    and "fs (resolveTenantUsageDir (rt_stateDir rt) tid) = Some Directory"
    and "fs (resolveTenantUsageCurrentPath (rt_stateDir rt) tid) = Some (File (UsageJson old))"
    and "is_month_label (period old)"
    and "period old \<noteq> getCurrentPeriod rt"
    and "fs (resolveTenantUsageDir (rt_stateDir rt) tid @ ''/'' @ period old @ ''.json'')
          \<noteq> Some Directory"
  shows "\<exists>fresh.
      loadTenantUsage rt tid fs
        = (Inr fresh,
           fs(resolveTenantUsageDir (rt_stateDir rt) tid @ ''/'' @ period old @ ''.json''
                \<mapsto> File (UsageJson old)))
      \<and> resolveTenantUsageHistoryPath (rt_stateDir rt) tid (period old)
          = resolveTenantUsageDir (rt_stateDir rt) tid @ ''/'' @ period old @ ''.json''
      \<and> endsWith (resolveTenantUsageDir (rt_stateDir rt) tid) (''/tenants/'' @ tid @ ''/usage'')
      \<and> period fresh
          = show_nat (rt_year rt) @ ''-'' @ (if rt_month rt < 9 then ''0'' else [])
              @ show_nat (rt_month rt + 1)
      \<and> (1000 \<le> rt_year rt \<and> rt_year rt \<le> 9999 \<and> rt_month rt < 12
            \<longrightarrow> is_month_label (period fresh))
      \<and> u_tenantId fresh = tid
      \<and> totalTokens fresh = 0 \<and> inputTokens fresh = 0 \<and> outputTokens fresh = 0
      \<and> cacheReadTokens fresh = 0 \<and> cacheWriteTokens fresh = 0 \<and> totalCostCents fresh = 0
      \<and> diskUsageBytes fresh = 0 \<and> workspaceBytes fresh = 0 \<and> agentDataBytes fresh = 0
      \<and> memoryDbBytes fresh = 0 \<and> totalSessions fresh = 0 \<and> activeSessions fresh = 0
      \<and> totalMessages fresh = 0 \<and> totalRequests fresh = 0 \<and> requestsThisMinute fresh = 0
      \<and> requestsThisHour fresh = 0 \<and> sandboxCpuSeconds fresh = 0
      \<and> sandboxPeakMemoryMB fresh = 0"
proof -
  let ?h = "resolveTenantUsageDir (rt_stateDir rt) tid @ ''/'' @ period old @ ''.json''"
  let ?fresh = "createEmptyUsageSnapshot rt tid"
  have rd: "readFile (resolveTenantUsageCurrentPath (rt_stateDir rt) tid) fs = Inr (UsageJson old)"
    using assms(4) by (simp add: readFile_def)
  have ar: "archiveUsageSnapshot rt tid old fs = (None, fs(?h \<mapsto> File (UsageJson old)))"
    unfolding archiveUsageSnapshot_def
    using assms(2,1,5,3,7) by (rule archive_month)
  have 1: "loadTenantUsage rt tid fs = (Inr ?fresh, fs(?h \<mapsto> File (UsageJson old)))"
    using assms(6) by (simp add: loadTenantUsage_def rd ar)
  have 2: "resolveTenantUsageHistoryPath (rt_stateDir rt) tid (period old) = ?h"
    using assms(2,1,5) by (rule history_path_form(1))
  have 3: "endsWith (resolveTenantUsageDir (rt_stateDir rt) tid) (''/tenants/'' @ tid @ ''/usage'')"
    using usage_dir_form [OF assms(2,1)] by blast
  have 4: "period ?fresh
      = show_nat (rt_year rt) @ ''-'' @ (if rt_month rt < 9 then ''0'' else [])
          @ show_nat (rt_month rt + 1)"
    using getCurrentPeriod_form [of rt] by (simp add: createEmptyUsageSnapshot_def)
  have 5: "1000 \<le> rt_year rt \<and> rt_year rt \<le> 9999 \<and> rt_month rt < 12
      \<longrightarrow> is_month_label (period ?fresh)"
    using getCurrentPeriod_label [of rt] by (simp add: createEmptyUsageSnapshot_def)
  have 6: "u_tenantId ?fresh = tid
      \<and> totalTokens ?fresh = 0 \<and> inputTokens ?fresh = 0 \<and> outputTokens ?fresh = 0
      \<and> cacheReadTokens ?fresh = 0 \<and> cacheWriteTokens ?fresh = 0 \<and> totalCostCents ?fresh = 0
      \<and> diskUsageBytes ?fresh = 0 \<and> workspaceBytes ?fresh = 0 \<and> agentDataBytes ?fresh = 0
      \<and> memoryDbBytes ?fresh = 0 \<and> totalSessions ?fresh = 0 \<and> activeSessions ?fresh = 0
      \<and> totalMessages ?fresh = 0 \<and> totalRequests ?fresh = 0 \<and> requestsThisMinute ?fresh = 0
      \<and> requestsThisHour ?fresh = 0 \<and> sandboxCpuSeconds ?fresh = 0
      \<and> sandboxPeakMemoryMB ?fresh = 0"
    by (simp add: createEmptyUsageSnapshot_def)
  show ?thesis
    by (rule exI [of _ ?fresh]) (intro conjI 1 2 3 4 5 6 [THEN conjunct1]; simp add: createEmptyUsageSnapshot_def)
qed

theorem C6_period_rollover_witness:
  "is_month_label (period demo_old) \<and> period demo_old \<noteq> getCurrentPeriod demo_rt
   \<and> (\<exists>fresh. loadTenantUsage demo_rt ''demo'' demo_files
         = (Inr fresh,
            demo_files(''/s/tenants/demo/usage/2026-10.json'' \<mapsto> File (UsageJson demo_old)))
       \<and> period fresh = ''2026-11'' \<and> is_month_label (period fresh)
       \<and> totalTokens fresh = 0 \<and> totalCostCents fresh = 0 \<and> diskUsageBytes fresh = 0
       \<and> totalSessions fresh = 0 \<and> activeSessions fresh = 0 \<and> totalMessages fresh = 0
       \<and> totalRequests fresh = 0 \<and> sandboxCpuSeconds fresh = 0)"
proof -
  have h1: "isValidTenantId ''demo''" by code_simp
  have h2: "isAbsolute (rt_stateDir demo_rt)" by code_simp
  have h3: "demo_files (resolveTenantUsageDir (rt_stateDir demo_rt) ''demo'') = Some Directory"
    by (simp add: demo_usage_dir demo_files_def)
  have h4: "demo_files (resolveTenantUsageCurrentPath (rt_stateDir demo_rt) ''demo'')
      = Some (File (UsageJson demo_old))"
    by (simp add: demo_current_path demo_files_def)
  have h5: "is_month_label (period demo_old)" by code_simp
  have h6: "period demo_old \<noteq> getCurrentPeriod demo_rt"
    by (simp add: demo_period demo_old_def)
  have p: "resolveTenantUsageDir (rt_stateDir demo_rt) ''demo'' @ ''/'' @ period demo_old @ ''.json''
      = ''/s/tenants/demo/usage/2026-10.json''"
    by code_simp
  have h7: "demo_files (resolveTenantUsageDir (rt_stateDir demo_rt) ''demo'' @ ''/''
              @ period demo_old @ ''.json'') \<noteq> Some Directory"
    unfolding p by (simp add: demo_files_def)
  have l: "show_nat (rt_year demo_rt) @ ''-'' @ (if rt_month demo_rt < 9 then ''0'' else [])
      @ show_nat (rt_month demo_rt + 1) = ''2026-11''"
    by code_simp
  have y: "1000 \<le> rt_year demo_rt \<and> rt_year demo_rt \<le> 9999 \<and> rt_month demo_rt < 12"
    by (simp add: demo_rt_def)
  from C6_period_rollover [where fs = demo_files and rt = demo_rt and tid = "''demo''"
      and old = demo_old, OF h1 h2 h3 h4 h5 h6 h7]
  show ?thesis
    unfolding p l using h5 h6 y by auto
qed

text \<open>
  A stored period that is not a month label is outside the claim. With the period
  \<open>2026/10\<close> the history path lies in a directory \<open>usage/2026\<close> that nothing creates:
  the write fails with \<open>ENOENT\<close>, the \<open>catch\<close> answers with a fresh snapshot, and
  nothing is archived.
\<close>

lemma rollover_period_with_separator:
  "loadTenantUsage demo_rt ''demo''
      (demo_files(''/s/tenants/demo/usage/current.json''
         \<mapsto> File (UsageJson (demo_old\<lparr>period := ''2026/10''\<rparr>))))
    = (Inr (createEmptyUsageSnapshot demo_rt ''demo''),
       demo_files(''/s/tenants/demo/usage/current.json''
         \<mapsto> File (UsageJson (demo_old\<lparr>period := ''2026/10''\<rparr>))))"
proof -
  define F where "F = demo_files(''/s/tenants/demo/usage/current.json''
         \<mapsto> File (UsageJson (demo_old\<lparr>period := ''2026/10''\<rparr>)))"
  have F: "F ''/s/tenants/demo/usage'' = Some Directory"
    "F ''/s/tenants/demo/usage/2026/10.json'' = None"
    "F ''/s/tenants/demo/usage/2026'' = None"
    "F ''/s/tenants/demo/usage/current.json''
      = Some (File (UsageJson (demo_old\<lparr>period := ''2026/10''\<rparr>)))"
    by (simp_all add: F_def demo_files_def)
  have h: "resolveTenantUsageHistoryPath (rt_stateDir demo_rt) ''demo'' ''2026/10''
      = ''/s/tenants/demo/usage/2026/10.json''"
    by code_simp
  have d: "posix_dirname ''/s/tenants/demo/usage/2026/10.json'' = ''/s/tenants/demo/usage/2026''"
    by code_simp
  have w: "writeFile ''/s/tenants/demo/usage/2026/10.json'' c F = Inl (Errno ''ENOENT'')" for c
    unfolding writeFile_def d by (simp add: F isDirectory_def)
  have m: "mkdir_recursive ''/s/tenants/demo/usage'' F = (None, F)"
    by (simp add: mkdir_recursive_def isDirectory_def F)
  have a: "archiveContent demo_rt ''demo'' ''2026/10'' c F = (Some (Errno ''ENOENT''), F)" for c
    unfolding archiveContent_def h demo_usage_dir m by (simp add: w)
  have r: "readFile ''/s/tenants/demo/usage/current.json'' F
      = Inr (UsageJson (demo_old\<lparr>period := ''2026/10''\<rparr>))"
    by (simp add: readFile_def F)
  have "loadTenantUsage demo_rt ''demo'' F = (Inr (createEmptyUsageSnapshot demo_rt ''demo''), F)"
    unfolding loadTenantUsage_def demo_current_path demo_period
    by (simp add: r archiveUsageSnapshot_def a caught_def)
  then show ?thesis unfolding F_def .
qed

text \<open>
  So is a directory at the history path: the write fails with \<open>EISDIR\<close>, which
  \<open>loadTenantUsage\<close> throws again.
\<close>

lemma rollover_history_path_taken:
  "loadTenantUsage demo_rt ''demo''
      (demo_files(''/s/tenants/demo/usage/2026-10.json'' \<mapsto> Directory))
    = (Inl (Errno ''EISDIR''),
       demo_files(''/s/tenants/demo/usage/2026-10.json'' \<mapsto> Directory))"
proof -
  define F where "F = demo_files(''/s/tenants/demo/usage/2026-10.json'' \<mapsto> Directory)"
  have F: "F ''/s/tenants/demo/usage'' = Some Directory"
    "F ''/s/tenants/demo/usage/2026-10.json'' = Some Directory"
    "F ''/s/tenants/demo/usage/current.json'' = Some (File (UsageJson demo_old))"
    by (simp_all add: F_def demo_files_def)
  have p: "period demo_old = ''2026-10''" by (simp add: demo_old_def)
  have h: "resolveTenantUsageHistoryPath (rt_stateDir demo_rt) ''demo'' ''2026-10''
      = ''/s/tenants/demo/usage/2026-10.json''"
    by code_simp
  have m: "mkdir_recursive ''/s/tenants/demo/usage'' F = (None, F)"
    by (simp add: mkdir_recursive_def isDirectory_def F)
  have a: "archiveContent demo_rt ''demo'' ''2026-10'' c F = (Some (Errno ''EISDIR''), F)" for c
    unfolding archiveContent_def h demo_usage_dir m by (simp add: writeFile_def F)
  have r: "readFile ''/s/tenants/demo/usage/current.json'' F = Inr (UsageJson demo_old)"
    by (simp add: readFile_def F)
  have "loadTenantUsage demo_rt ''demo'' F = (Inl (Errno ''EISDIR''), F)"
    unfolding loadTenantUsage_def demo_current_path demo_period
    by (simp add: r archiveUsageSnapshot_def p a caught_def)
  then show ?thesis unfolding F_def .
qed

text \<open>
  A tenant without files: the first load finds nothing and returns a fresh snapshot, and
  the first save creates the directories down to the usage directory.
\<close>

lemma demo_ancestors:
  "ancestors ''/s/tenants/demo/usage''
    = [''/s'', ''/s/tenants'', ''/s/tenants/demo'', ''/s/tenants/demo/usage'']"
  by code_simp

lemma first_save_creates_directories:
  "saveTenantUsage demo_rt ''demo'' demo_old Map.empty
    = (None,
       [''/s'' \<mapsto> Directory, ''/s/tenants'' \<mapsto> Directory,
        ''/s/tenants/demo'' \<mapsto> Directory, ''/s/tenants/demo/usage'' \<mapsto> Directory,
        ''/s/tenants/demo/usage/current.json''
          \<mapsto> File (UsageJson (demo_old\<lparr>updatedAt := 1793707200000\<rparr>))])"
proof -
  have d: "posix_dirname ''/s/tenants/demo/usage/current.json'' = ''/s/tenants/demo/usage''"
    by code_simp
  have m: "mkdir_recursive ''/s/tenants/demo/usage'' Map.empty
      = (None, [''/s'' \<mapsto> Directory, ''/s/tenants'' \<mapsto> Directory,
                ''/s/tenants/demo'' \<mapsto> Directory, ''/s/tenants/demo/usage'' \<mapsto> Directory])"
    by (simp add: mkdir_recursive_def isDirectory_def demo_ancestors)
  show ?thesis
    unfolding saveTenantUsage_def demo_usage_dir demo_current_path m
    by (simp add: writeFile_def d isDirectory_def demo_now)
qed

lemma first_load_is_fresh:
  "loadTenantUsage demo_rt ''demo'' Map.empty
    = (Inr (createEmptyUsageSnapshot demo_rt ''demo''), Map.empty)"
  unfolding loadTenantUsage_def demo_current_path
  by (simp add: readFile_def caught_def)

section \<open>Quota checks: the rate-limited denial\<close>

text \<open>Once the request is recorded, the result is an error or \<open>allowed\<close>.\<close>

lemma recorded_not_denied:
  "(case saveRateLimitState rt tid st fs of
      (Some e, fs1) \<Rightarrow> (Inl e, fs1)
    | (None, fs1) \<Rightarrow>
        (case loadTenantUsage rt tid fs1 of
          (Inl e, fs2) \<Rightarrow> (Inl e, fs2)
        | (Inr snapshot, fs2) \<Rightarrow>
            (case g snapshot fs2 of
              (Some e, fs3) \<Rightarrow> (Inl e, fs3)
            | (None, fs3) \<Rightarrow> (Inr RateAllowed, fs3))))
    \<noteq> (Inr (RateDenied m), fs')"
  by (auto split: prod.splits option.splits sum.splits)

text \<open>A denial by the rate limiter leaves the files as they were.\<close>

lemma checkAndRecordRequest_denied:
  assumes "checkAndRecordRequest rt tid q fs = (Inr (RateDenied m), fs')"
  shows "fs' = fs \<and> (m = ''Rate limit exceeded (per minute)''
                    \<or> m = ''Rate limit exceeded (per hour)'')"
proof (cases "loadRateLimitState rt tid fs")
  case None
  then show ?thesis using assms by (simp add: checkAndRecordRequest_def)
next
  case (Some st)
  let ?mw = "filter (\<lambda>t. t > rt_now rt - 60000) (minuteWindow st)"
  let ?hw = "filter (\<lambda>t. t > rt_now rt - 3600000) (hourWindow st)"
  let ?minute = "case requestsPerMinute q of None \<Rightarrow> False | Some l \<Rightarrow> int (length ?mw) \<ge> l"
  let ?hour = "case requestsPerHour q of None \<Rightarrow> False | Some l \<Rightarrow> int (length ?hw) \<ge> l"
  show ?thesis
  proof (cases ?minute)
    case True
    then show ?thesis using assms Some by (simp add: checkAndRecordRequest_def Let_def)
  next
    case nm: False
    show ?thesis
    proof (cases ?hour)
      case True
      then show ?thesis using assms Some nm by (simp add: checkAndRecordRequest_def Let_def)
    next
      case False
      then show ?thesis using assms Some nm recorded_not_denied
        by (simp add: checkAndRecordRequest_def Let_def)
    qed
  qed
qed

lemma denied_reason: "map_of (denied r m) ''reason'' = Some (JString r)"
  by (simp add: denied_def)

text \<open>
  Claim C8, as the code has it. Whenever \<open>checkQuotaBeforeRequest\<close> denies a request
  with reason \<open>rate_limited\<close>, the object it returns has exactly the properties
  \<open>allowed\<close> (false), \<open>reason\<close> and \<open>message\<close>, the message being that of the
  per-minute or of the per-hour limit; it has no \<open>retryAfterMs\<close>, and no file is
  written.
\<close>

theorem C8_rate_limited_shape:
  assumes "checkQuotaBeforeRequest rt percent tid q fs = (Inr obj, fs')"
    and "map_of obj ''reason'' = Some (JString ''rate_limited'')"
  shows "(obj = [(''allowed'', JBool False), (''reason'', JString ''rate_limited''),
                 (''message'', JString ''Rate limit exceeded (per minute)'')]
          \<or> obj = [(''allowed'', JBool False), (''reason'', JString ''rate_limited''),
                 (''message'', JString ''Rate limit exceeded (per hour)'')])
       \<and> map fst obj = [''allowed'', ''reason'', ''message'']
       \<and> map_of obj ''retryAfterMs'' = None
       \<and> fs' = fs"
proof -
  obtain res fs1 where car: "checkAndRecordRequest rt tid q fs = (res, fs1)"
    by (cases "checkAndRecordRequest rt tid q fs")
  show ?thesis
  proof (cases res)
    case (Inl e)
    then show ?thesis using assms(1) car by (simp add: checkQuotaBeforeRequest_def)
  next
    case (Inr rr)
    show ?thesis
    proof (cases rr)
      case RateAllowed
      obtain sres fs2 where st: "getTenantQuotaStatus rt tid q fs1 = (sres, fs2)"
        by (cases "getTenantQuotaStatus rt tid q fs1")
      show ?thesis
      proof (cases sres)
        case (Inl e)
        then show ?thesis using assms(1) car Inr RateAllowed st
          by (simp add: checkQuotaBeforeRequest_def)
      next
        case status: (Inr status)
        have "map_of obj ''reason'' \<noteq> Some (JString ''rate_limited'')"
          using assms(1) car Inr RateAllowed st status
          by (auto simp: checkQuotaBeforeRequest_def denied_reason Let_def split: if_splits)
        then show ?thesis using assms(2) by simp
      qed
    next
      case (RateDenied m)
      then have "fs1 = fs \<and> (m = ''Rate limit exceeded (per minute)''
          \<or> m = ''Rate limit exceeded (per hour)'')"
        using car Inr checkAndRecordRequest_denied by blast
      then show ?thesis using assms(1) car Inr RateDenied
        by (auto simp: checkQuotaBeforeRequest_def denied_def)
    qed
  qed
qed

text \<open>
  The denial is what a full window gives: with the per-minute limit set and at least that
  many requests within the last minute, the request is denied as \<open>rate_limited\<close>.
\<close>

lemma rate_limited_when_minute_window_full:
  assumes "loadRateLimitState rt tid fs = Some st" and "requestsPerMinute q = Some l"
    and "l \<le> int (length (filter (\<lambda>t. t > rt_now rt - 60000) (minuteWindow st)))"
  shows "checkQuotaBeforeRequest rt percent tid q fs
    = (Inr (denied ''rate_limited'' ''Rate limit exceeded (per minute)''), fs)"
  using assms by (simp add: checkQuotaBeforeRequest_def checkAndRecordRequest_def Let_def)

lemma demo_minute_limit:
  "checkAndRecordRequest demo_rt ''demo'' (noQuotas\<lparr>requestsPerMinute := Some 2\<rparr>)
      demo_rate_files
    = (Inr (RateDenied ''Rate limit exceeded (per minute)''), demo_rate_files)"
  by (simp add: checkAndRecordRequest_def loadRateLimitState_def readFile_def Let_def
      demo_rate_path demo_now demo_rate_files_def noQuotas_def)

lemma demo_hour_limit:
  "checkAndRecordRequest demo_rt ''demo'' (noQuotas\<lparr>requestsPerHour := Some 1\<rparr>)
      demo_rate_files
    = (Inr (RateDenied ''Rate limit exceeded (per hour)''), demo_rate_files)"
  by (simp add: checkAndRecordRequest_def loadRateLimitState_def readFile_def Let_def
      demo_rate_path demo_now demo_rate_files_def noQuotas_def)

theorem C8_rate_limited_shape_witness:
  "checkQuotaBeforeRequest demo_rt no_percent ''demo''
      (noQuotas\<lparr>requestsPerMinute := Some 2\<rparr>) demo_rate_files
    = (Inr [(''allowed'', JBool False), (''reason'', JString ''rate_limited''),
            (''message'', JString ''Rate limit exceeded (per minute)'')], demo_rate_files)
   \<and> map_of [(''allowed'', JBool False), (''reason'', JString ''rate_limited''),
             (''message'', JString ''Rate limit exceeded (per minute)'')] ''retryAfterMs''
      = None"
proof -
  have h1: "checkQuotaBeforeRequest demo_rt no_percent ''demo''
      (noQuotas\<lparr>requestsPerMinute := Some 2\<rparr>) demo_rate_files
    = (Inr [(''allowed'', JBool False), (''reason'', JString ''rate_limited''),
            (''message'', JString ''Rate limit exceeded (per minute)'')], demo_rate_files)"
    by (simp add: checkQuotaBeforeRequest_def demo_minute_limit denied_def)
  have h2: "map_of [(''allowed'', JBool False), (''reason'', JString ''rate_limited''),
            (''message'', JString ''Rate limit exceeded (per minute)'')] ''reason''
      = Some (JString ''rate_limited'')"
    by simp
  show ?thesis using C8_rate_limited_shape [OF h1 h2] h1 by simp
qed

text \<open>
  The claim as written fails: the denial of a request over the hourly limit carries a
  reason and a message and nothing else.
\<close>

theorem C8_no_retry_after_counterexample:
  "checkQuotaBeforeRequest demo_rt no_percent ''demo''
      (noQuotas\<lparr>requestsPerHour := Some 1\<rparr>) demo_rate_files
    = (Inr [(''allowed'', JBool False), (''reason'', JString ''rate_limited''),
            (''message'', JString ''Rate limit exceeded (per hour)'')], demo_rate_files)
   \<and> ''retryAfterMs'' \<notin> set (map fst [(''allowed'', JBool False),
        (''reason'', JString ''rate_limited''),
        (''message'', JString ''Rate limit exceeded (per hour)'')])"
  by (simp add: checkQuotaBeforeRequest_def demo_hour_limit denied_def)

section \<open>Archive extraction: the security filter\<close>

lemma resolve_absolute_entry:
  "isAbsolute p \<Longrightarrow> posix_resolve cwd [T, p] = posix_resolve cwd [p]"
  by (cases p) (auto simp: posix_resolve_def isAbsolute_def)

lemma posix_resolve_absolute:
  assumes "resolve_loop (rev args @ [cwd]) [] = (rp, True)"
    and "normalizeString False [] (str_split CHR ''/'' rp) = segs"
  shows "posix_resolve cwd args = ''/'' @ str_join ''/'' segs"
  using assms by (simp add: posix_resolve_def)

lemma resolve_plain:
  assumes "tsegs \<noteq> []" "list_all plain_segment tsegs"
    and "psegs \<noteq> []" "list_all plain_segment psegs"
  shows "posix_resolve cwd [''/'' @ str_join ''/'' tsegs, str_join ''/'' psegs]
      = ''/'' @ str_join ''/'' tsegs @ ''/'' @ str_join ''/'' psegs"
proof -
  let ?T = "''/'' @ str_join ''/'' tsegs" and ?p = "str_join ''/'' psegs"
  have p: "?p \<noteq> []" "\<not> isAbsolute ?p"
    using str_join_plain_nonempty [OF assms(3,4)] by (auto simp: isAbsolute_def split: list.splits)
  have loop: "resolve_loop (rev [?T, ?p] @ [cwd]) [] = (?T @ ''/'' @ ?p @ ''/'', True)"
    using p by (simp add: isAbsolute_def)
  have j: "str_join ''/'' (tsegs @ psegs) = str_join ''/'' tsegs @ ''/'' @ ?p"
    using assms(1,3) by (rule str_join_append)
  have "?T @ ''/'' @ ?p @ ''/'' = [] @ CHR ''/'' # (str_join ''/'' (tsegs @ psegs) @ CHR ''/'' # [])"
    by (simp add: j)
  then have "str_split CHR ''/'' (?T @ ''/'' @ ?p @ ''/'')
      = str_split CHR ''/'' [] @ str_split CHR ''/'' (str_join ''/'' (tsegs @ psegs))
          @ str_split CHR ''/'' []"
    by (simp only: str_split_append_gen)
  also have "\<dots> = [[]] @ (tsegs @ psegs) @ [[]]"
    using assms by (simp add: str_split_join)
  finally have sp: "str_split CHR ''/'' (?T @ ''/'' @ ?p @ ''/'') = [[]] @ (tsegs @ psegs) @ [[]]" .
  have pl: "list_all plain_segment (tsegs @ psegs)" using assms by simp
  have n1: "normalizeString False [] (tsegs @ psegs) = tsegs @ psegs"
    using normalizeString_plain [OF pl, of False "[]"] by simp
  have "normalizeString False [] ([[]] @ (tsegs @ psegs) @ [[]])
      = normalizeString False [] ((tsegs @ psegs) @ [[]])"
    by simp
  also have "\<dots> = normalizeString False (rev (tsegs @ psegs)) [[]]"
    by (subst normalizeString_append) (simp only: n1)
  also have "\<dots> = tsegs @ psegs" by simp
  finally have ns: "normalizeString False [] ([[]] @ (tsegs @ psegs) @ [[]]) = tsegs @ psegs" .
  have seg: "normalizeString False [] (str_split CHR ''/'' (?T @ ''/'' @ ?p @ ''/''))
      = tsegs @ psegs"
    by (simp only: sp ns)
  show ?thesis
    using posix_resolve_absolute [OF loop seg] by (simp add: j)
qed

text \<open>
  Claim C7, as the code has it. For every archive entry the filter returns false when the
  entry is a symbolic link whose target, resolved against the directory of the entry, lies
  outside the resolved target directory, and when the entry's own resolved path lies
  outside the resolved target directory; an entry with an absolute path is among the
  latter when that path does not lead into the target directory. Nothing else is
  rejected of an entry that is no link, or of a symbolic link: the former passes exactly
  when its resolved path lies inside the target directory, the latter exactly when its
  resolved path and its resolved target do. So an entry that is no link passes when its
  path consists of plain segments, under a target directory of plain segments, and also
  when its path is absolute and leads into the target directory. The entries handed on
  for unpacking are those of the archive that pass the filter, and no other: a rejected
  entry is not written.
\<close>

theorem C7_extract_filter:
  "(e_type e = ''SymbolicLink''
      \<and> \<not> inside T (posix_resolve cwd
              [posix_dirname (posix_join [T, p]),
               (case e_linkpath e of None \<Rightarrow> [] | Some l \<Rightarrow> l)])
     \<longrightarrow> \<not> extract_filter cwd T p e)
   \<and> (\<not> inside T (posix_resolve cwd [T, p]) \<longrightarrow> \<not> extract_filter cwd T p e)
   \<and> (isAbsolute p \<and> \<not> inside T (posix_resolve cwd [p]) \<longrightarrow> \<not> extract_filter cwd T p e)
   \<and> (e_type e \<noteq> ''SymbolicLink'' \<and> e_type e \<noteq> ''Link''
     \<longrightarrow> extract_filter cwd T p e = inside T (posix_resolve cwd [T, p]))
   \<and> (e_type e = ''SymbolicLink''
     \<longrightarrow> extract_filter cwd T p e
          = (inside T (posix_resolve cwd
                [posix_dirname (posix_join [T, p]),
                 (case e_linkpath e of None \<Rightarrow> [] | Some l \<Rightarrow> l)])
             \<and> inside T (posix_resolve cwd [T, p])))
   \<and> (e_type e \<noteq> ''SymbolicLink'' \<and> e_type e \<noteq> ''Link''
       \<and> tsegs \<noteq> [] \<and> list_all plain_segment tsegs \<and> T = ''/'' @ str_join ''/'' tsegs
       \<and> psegs \<noteq> [] \<and> list_all plain_segment psegs \<and> p = str_join ''/'' psegs
     \<longrightarrow> extract_filter cwd T p e)
   \<and> (e_type e \<noteq> ''SymbolicLink'' \<and> e_type e \<noteq> ''Link''
       \<and> isAbsolute p \<and> inside T (posix_resolve cwd [p])
     \<longrightarrow> extract_filter cwd T p e)
   \<and> ((p, e) \<in> set (extractTarGz cwd targetDir entries)
       \<longleftrightarrow> (p, e) \<in> set entries \<and> extract_filter cwd (posix_resolve cwd [targetDir]) p e)"
proof (intro conjI impI)
  assume "e_type e = ''SymbolicLink''
      \<and> \<not> inside T (posix_resolve cwd
              [posix_dirname (posix_join [T, p]),
               (case e_linkpath e of None \<Rightarrow> [] | Some l \<Rightarrow> l)])"
  then show "\<not> extract_filter cwd T p e"
    by (simp add: extract_filter_def inside_def Let_def)
next
  assume "\<not> inside T (posix_resolve cwd [T, p])"
  then show "\<not> extract_filter cwd T p e"
    by (simp add: extract_filter_def inside_def Let_def)
next
  assume "isAbsolute p \<and> \<not> inside T (posix_resolve cwd [p])"
  then have "\<not> inside T (posix_resolve cwd [T, p])"
    by (simp add: resolve_absolute_entry)
  then show "\<not> extract_filter cwd T p e"
    by (simp add: extract_filter_def inside_def Let_def)
next
  assume "e_type e \<noteq> ''SymbolicLink'' \<and> e_type e \<noteq> ''Link''"
  then show "extract_filter cwd T p e = inside T (posix_resolve cwd [T, p])"
    by (simp add: extract_filter_def inside_def Let_def)
next
  assume "e_type e = ''SymbolicLink''"
  then show "extract_filter cwd T p e
          = (inside T (posix_resolve cwd
                [posix_dirname (posix_join [T, p]),
                 (case e_linkpath e of None \<Rightarrow> [] | Some l \<Rightarrow> l)])
             \<and> inside T (posix_resolve cwd [T, p]))"
    by (simp add: extract_filter_def inside_def Let_def)
next
  assume a: "e_type e \<noteq> ''SymbolicLink'' \<and> e_type e \<noteq> ''Link''
       \<and> tsegs \<noteq> [] \<and> list_all plain_segment tsegs \<and> T = ''/'' @ str_join ''/'' tsegs
       \<and> psegs \<noteq> [] \<and> list_all plain_segment psegs \<and> p = str_join ''/'' psegs"
  then have "posix_resolve cwd [T, p] = T @ ''/'' @ p"
    using resolve_plain [of tsegs psegs cwd] by simp
  then have "startsWith (posix_resolve cwd [T, p]) (T @ ''/'')"
    using startsWith_append [of "T @ ''/''" p] by simp
  then show "extract_filter cwd T p e"
    using a by (simp add: extract_filter_def Let_def)
next
  assume a: "e_type e \<noteq> ''SymbolicLink'' \<and> e_type e \<noteq> ''Link''
       \<and> isAbsolute p \<and> inside T (posix_resolve cwd [p])"
  then have "inside T (posix_resolve cwd [T, p])"
    by (simp add: resolve_absolute_entry)
  then show "extract_filter cwd T p e"
    using a by (auto simp: extract_filter_def inside_def Let_def)
next
  show "(p, e) \<in> set (extractTarGz cwd targetDir entries)
       \<longleftrightarrow> (p, e) \<in> set entries \<and> extract_filter cwd (posix_resolve cwd [targetDir]) p e"
    by (auto simp: extractTarGz_def Let_def)
qed

text \<open>
  Scenario S7: of the archive with \<open>../escape.txt\<close> and the link \<open>inner\<close> to
  \<open>../../escape\<close>, the two benign entries are handed on, and these two are not.
\<close>

lemma demo_target: "posix_resolve ''/srv'' [''t''] = ''/srv/t''"
  by code_simp

lemma demo_extract: "extractTarGz ''/srv'' ''t'' demo_archive =
    [(''./'', \<lparr>e_type = ''Directory'', e_linkpath = None\<rparr>),
     (''workspace/a.txt'', \<lparr>e_type = ''File'', e_linkpath = None\<rparr>)]"
  by code_simp

lemma demo_link_outside:
  "\<not> inside ''/srv/t'' (posix_resolve ''/srv''
      [posix_dirname (posix_join [''/srv/t'', ''inner'']), ''../../escape''])"
  by code_simp

lemma demo_link_inside:
  "inside ''/srv/t'' (posix_resolve ''/srv''
      [posix_dirname (posix_join [''/srv/t'', ''workspace/l'']), ''a.txt''])
   \<and> inside ''/srv/t'' (posix_resolve ''/srv'' [''/srv/t'', ''workspace/l''])"
  by code_simp

lemma demo_entry_outside: "\<not> inside ''/srv/t'' (posix_resolve ''/srv'' [''/srv/t'', ''../escape.txt''])"
  by code_simp

lemma demo_entry_inside: "inside ''/srv/t'' (posix_resolve ''/srv'' [''/srv/t'', ''./''])"
  by code_simp

lemma demo_abs_outside: "isAbsolute ''/etc/passwd'' \<and> \<not> inside ''/srv/t'' (posix_resolve ''/srv'' [''/etc/passwd''])"
  by code_simp

lemma demo_abs_inside: "isAbsolute ''/srv/t/b.txt'' \<and> inside ''/srv/t'' (posix_resolve ''/srv'' [''/srv/t/b.txt''])"
  by code_simp

theorem C7_extract_filter_witness:
  "\<not> extract_filter ''/srv'' ''/srv/t'' ''inner''
        \<lparr>e_type = ''SymbolicLink'', e_linkpath = Some ''../../escape''\<rparr>
   \<and> \<not> extract_filter ''/srv'' ''/srv/t'' ''../escape.txt'' \<lparr>e_type = ''File'', e_linkpath = None\<rparr>
   \<and> \<not> extract_filter ''/srv'' ''/srv/t'' ''/etc/passwd'' \<lparr>e_type = ''File'', e_linkpath = None\<rparr>
   \<and> extract_filter ''/srv'' ''/srv/t'' ''./'' \<lparr>e_type = ''Directory'', e_linkpath = None\<rparr>
   \<and> extract_filter ''/srv'' ''/srv/t'' ''workspace/l''
        \<lparr>e_type = ''SymbolicLink'', e_linkpath = Some ''a.txt''\<rparr>
   \<and> extract_filter ''/srv'' ''/srv/t'' ''workspace/a.txt'' \<lparr>e_type = ''File'', e_linkpath = None\<rparr>
   \<and> extract_filter ''/srv'' ''/srv/t'' ''/srv/t/b.txt'' \<lparr>e_type = ''File'', e_linkpath = None\<rparr>
   \<and> (''workspace/a.txt'', \<lparr>e_type = ''File'', e_linkpath = None\<rparr>)
       \<in> set (extractTarGz ''/srv'' ''t'' demo_archive)
   \<and> (''../escape.txt'', \<lparr>e_type = ''File'', e_linkpath = None\<rparr>)
       \<notin> set (extractTarGz ''/srv'' ''t'' demo_archive)
   \<and> (''inner'', \<lparr>e_type = ''SymbolicLink'', e_linkpath = Some ''../../escape''\<rparr>)
       \<notin> set (extractTarGz ''/srv'' ''t'' demo_archive)"
proof -
  note c = C7_extract_filter [where cwd = "''/srv''" and T = "''/srv/t''" and targetDir = "''t''"
      and entries = demo_archive]
  have 1: "\<not> extract_filter ''/srv'' ''/srv/t'' ''inner''
        \<lparr>e_type = ''SymbolicLink'', e_linkpath = Some ''../../escape''\<rparr>"
    using c [where p = "''inner''" and e = "\<lparr>e_type = ''SymbolicLink'', e_linkpath = Some ''../../escape''\<rparr>", THEN conjunct1]
      demo_link_outside
    by simp
  have 2: "\<not> extract_filter ''/srv'' ''/srv/t'' ''../escape.txt''
        \<lparr>e_type = ''File'', e_linkpath = None\<rparr>"
    using c [where p = "''../escape.txt''" and e = "\<lparr>e_type = ''File'', e_linkpath = None\<rparr>", THEN conjunct2, THEN conjunct1]
      demo_entry_outside
    by simp
  have 3: "\<not> extract_filter ''/srv'' ''/srv/t'' ''/etc/passwd''
        \<lparr>e_type = ''File'', e_linkpath = None\<rparr>"
    using c [where p = "''/etc/passwd''" and e = "\<lparr>e_type = ''File'', e_linkpath = None\<rparr>", THEN conjunct2, THEN conjunct2, THEN conjunct1]
      demo_abs_outside
    by simp
  have 4: "extract_filter ''/srv'' ''/srv/t'' ''./'' \<lparr>e_type = ''Directory'', e_linkpath = None\<rparr>"
    using c [where p = "''./''" and e = "\<lparr>e_type = ''Directory'', e_linkpath = None\<rparr>", THEN conjunct2, THEN conjunct2, THEN conjunct2, THEN conjunct1]
      demo_entry_inside
    by simp
  have 5: "extract_filter ''/srv'' ''/srv/t'' ''workspace/l''
        \<lparr>e_type = ''SymbolicLink'', e_linkpath = Some ''a.txt''\<rparr>"
    using c [where p = "''workspace/l''" and e = "\<lparr>e_type = ''SymbolicLink'', e_linkpath = Some ''a.txt''\<rparr>", THEN conjunct2, THEN conjunct2, THEN conjunct2, THEN conjunct2, THEN conjunct1]
      demo_link_inside
    by simp
  have 6: "extract_filter ''/srv'' ''/srv/t'' ''workspace/a.txt''
        \<lparr>e_type = ''File'', e_linkpath = None\<rparr>"
    using c [where p = "''workspace/a.txt''" and e = "\<lparr>e_type = ''File'', e_linkpath = None\<rparr>" and tsegs = "[''srv'', ''t'']" and psegs = "[''workspace'', ''a.txt'']", THEN conjunct2, THEN conjunct2, THEN conjunct2, THEN conjunct2, THEN conjunct2, THEN conjunct1]
    by (simp add: plain_segment_def)
  have 7: "extract_filter ''/srv'' ''/srv/t'' ''/srv/t/b.txt''
        \<lparr>e_type = ''File'', e_linkpath = None\<rparr>"
    using c [where p = "''/srv/t/b.txt''" and e = "\<lparr>e_type = ''File'', e_linkpath = None\<rparr>", THEN conjunct2, THEN conjunct2, THEN conjunct2, THEN conjunct2, THEN conjunct2, THEN conjunct2, THEN conjunct1]
      demo_abs_inside
    by simp
  have 8: "(''workspace/a.txt'', \<lparr>e_type = ''File'', e_linkpath = None\<rparr>)
       \<in> set (extractTarGz ''/srv'' ''t'' demo_archive)"
    using c [where p = "''workspace/a.txt''" and e = "\<lparr>e_type = ''File'', e_linkpath = None\<rparr>", THEN conjunct2, THEN conjunct2, THEN conjunct2, THEN conjunct2, THEN conjunct2, THEN conjunct2, THEN conjunct2]
      6 demo_target
    by (simp add: demo_archive_def)
  have 9: "(''../escape.txt'', \<lparr>e_type = ''File'', e_linkpath = None\<rparr>)
       \<notin> set (extractTarGz ''/srv'' ''t'' demo_archive)"
    using c [where p = "''../escape.txt''" and e = "\<lparr>e_type = ''File'', e_linkpath = None\<rparr>", THEN conjunct2, THEN conjunct2, THEN conjunct2, THEN conjunct2, THEN conjunct2, THEN conjunct2, THEN conjunct2]
      2 demo_target
    by simp
  have 10: "(''inner'', \<lparr>e_type = ''SymbolicLink'', e_linkpath = Some ''../../escape''\<rparr>)
       \<notin> set (extractTarGz ''/srv'' ''t'' demo_archive)"
    using c [where p = "''inner''" and e = "\<lparr>e_type = ''SymbolicLink'', e_linkpath = Some ''../../escape''\<rparr>", THEN conjunct2, THEN conjunct2, THEN conjunct2, THEN conjunct2, THEN conjunct2, THEN conjunct2, THEN conjunct2]
      1 demo_target
    by simp
  show ?thesis using 1 2 3 4 5 6 7 8 9 10 by simp
qed

text \<open>
  The claim as written fails for an absolute path that leads into the target directory:
  the filter accepts the entry.
\<close>

theorem C7_absolute_inside_counterexample:
  "isAbsolute ''/srv/t/a.txt''
   \<and> extract_filter ''/srv'' ''/srv/t'' ''/srv/t/a.txt'' \<lparr>e_type = ''File'', e_linkpath = None\<rparr>
   \<and> extractTarGz ''/srv'' ''t'' [(''/srv/t/a.txt'', \<lparr>e_type = ''File'', e_linkpath = None\<rparr>)]
      = [(''/srv/t/a.txt'', \<lparr>e_type = ''File'', e_linkpath = None\<rparr>)]"
  by code_simp

text \<open>
  The theorem speaks of symbolic links only. The filter resolves the \<open>linkpath\<close> of a
  hard link (type \<open>Link\<close>) as it does that of a symbolic link, against the directory of
  the entry; the \<open>linkpath\<close> of a hard link in a tar archive is a path from the root of
  the archive. The hard link \<open>a/c\<close> to \<open>../x\<close> passes the filter under \<open>/srv/t\<close>,
  and \<open>../x\<close> read from \<open>/srv/t\<close> is \<open>/srv/x\<close>, outside the target directory.
\<close>

lemma hard_link_target_from_root:
  "extract_filter ''/srv'' ''/srv/t'' ''a/c'' \<lparr>e_type = ''Link'', e_linkpath = Some ''../x''\<rparr>
   \<and> posix_resolve ''/srv'' [''/srv/t'', ''../x''] = ''/srv/x''
   \<and> \<not> inside ''/srv/t'' ''/srv/x''
   \<and> extractTarGz ''/srv'' ''t'' [(''a/c'', \<lparr>e_type = ''Link'', e_linkpath = Some ''../x''\<rparr>)]
      = [(''a/c'', \<lparr>e_type = ''Link'', e_linkpath = Some ''../x''\<rparr>)]"
  by code_simp

section \<open>Session keys: building and parsing\<close>

lemma lower_alnum_code:
  "lower_alnum c \<Longrightarrow>
    (48 \<le> (of_char c :: nat) \<and> (of_char c :: nat) \<le> 57)
    \<or> (97 \<le> (of_char c :: nat) \<and> (of_char c :: nat) \<le> 122)"
  unfolding lower_alnum_def by (elim disjE | simp)+

lemma id_char_code:
  assumes "id_char c"
  shows "(of_char c :: nat) < 65 \<or> 90 < (of_char c :: nat)"
    and "13 < (of_char c :: nat)" and "(of_char c :: nat) \<noteq> 32"
proof -
  consider "lower_alnum c" | "c = CHR ''_''" | "c = CHR ''-''"
    using assms by (auto simp: id_char_def)
  then have "(48 \<le> (of_char c :: nat) \<and> (of_char c :: nat) \<le> 57)
      \<or> (97 \<le> (of_char c :: nat) \<and> (of_char c :: nat) \<le> 122)
      \<or> (of_char c :: nat) = 95 \<or> (of_char c :: nat) = 45"
    using lower_alnum_code by cases auto
  then show "(of_char c :: nat) < 65 \<or> 90 < (of_char c :: nat)"
    and "13 < (of_char c :: nat)" and "(of_char c :: nat) \<noteq> 32"
    by auto
qed

lemma id_char_lower: "id_char c \<Longrightarrow> lower_char c = c"
  using id_char_code(1) [of c] by (auto simp: lower_char_def Let_def)

lemma id_char_not_space: "id_char c \<Longrightarrow> \<not> is_space c"
  using id_char_code(2,3) [of c] by (auto simp: is_space_def Let_def)

lemma lower_char_idem: "lower_char (lower_char c) = lower_char c"
  by (auto simp: lower_char_def Let_def)

lemma lower_char_space: "is_space (lower_char c) = is_space c"
  by (auto simp: lower_char_def is_space_def Let_def)

lemma toLowerCase_idem: "toLowerCase (toLowerCase s) = toLowerCase s"
  by (simp add: toLowerCase_def lower_char_idem)

lemma toLowerCase_id: "\<forall>c \<in> set s. id_char c \<Longrightarrow> toLowerCase s = s"
  by (induction s) (auto simp: toLowerCase_def id_char_lower)

lemma toLowerCase_append: "toLowerCase (a @ b) = toLowerCase a @ toLowerCase b"
  by (simp add: toLowerCase_def)

lemma trim_id:
  assumes "s \<noteq> []" "\<not> is_space (hd s)" "\<not> is_space (last s)"
  shows "trim s = s"
proof -
  have 1: "dropWhile is_space s = s" using assms(2) by (simp add: dropWhile_eq_self_iff)
  have "hd (rev s) = last s" using assms(1) by (simp add: hd_rev)
  then have 2: "dropWhile is_space (rev s) = rev s"
    using assms(3) by (simp add: dropWhile_eq_self_iff)
  show ?thesis by (simp add: trim_def 1 2)
qed

lemma trim_last:
  assumes "trim s \<noteq> []"
  shows "\<not> is_space (last (trim s))"
proof -
  let ?d = "dropWhile is_space (rev (dropWhile is_space s))"
  have ne: "?d \<noteq> []" using assms by (simp add: trim_def)
  then have h: "\<not> is_space (hd ?d)" by (rule hd_dropWhile)
  have "last (trim s) = hd ?d" using ne by (simp add: trim_def last_rev)
  then show "\<not> is_space (last (trim s))" using h by simp
qed

lemma takeWhile_colon:
  "CHR '':'' \<notin> set a \<Longrightarrow> takeWhile (\<lambda>c. c \<noteq> CHR '':'') (a @ CHR '':'' # b) = a"
  by (induction a) auto

lemma id_char_main: "\<forall>c \<in> set ''main''. id_char c"
  by (simp add: id_char_def lower_alnum_def)

lemma replace_invalid_chars: "\<forall>c \<in> set (replace_invalid s). id_char c"
  by (induction s rule: replace_invalid.induct) (auto simp: id_char_def)

lemma strip_dashes_subset: "set (strip_dashes s) \<subseteq> set s"
proof -
  have "set (dropWhile (\<lambda>x. x = CHR ''-'') (rev (dropWhile (\<lambda>x. x = CHR ''-'') s)))
      \<subseteq> set (rev (dropWhile (\<lambda>x. x = CHR ''-'') s))"
    by (meson set_dropWhileD subsetI)
  also have "\<dots> \<subseteq> set s" by (auto dest: set_dropWhileD)
  finally show ?thesis by (simp add: strip_dashes_def)
qed

lemma normalizeAgentId_chars:
  "normalizeAgentId v \<noteq> [] \<and> (\<forall>c \<in> set (normalizeAgentId v). id_char c)"
proof -
  let ?t = "trim (case v of None \<Rightarrow> [] | Some x \<Rightarrow> x)"
  let ?r = "take 64 (strip_dashes (replace_invalid (toLowerCase ?t)))"
  have r: "\<forall>c \<in> set ?r. id_char c"
    using replace_invalid_chars [of "toLowerCase ?t"]
      strip_dashes_subset [of "replace_invalid (toLowerCase ?t)"]
    by (meson in_set_takeD subsetD)
  have v: "VALID_ID_RE ?t \<Longrightarrow> toLowerCase ?t \<noteq> [] \<and> (\<forall>c \<in> set (toLowerCase ?t). id_char c)"
    by (auto simp: VALID_ID_RE_def id_char_def list_all_iff split: list.splits)
  show ?thesis
    using r v id_char_main
    by (simp add: normalizeAgentId_def Let_def DEFAULT_AGENT_ID_def)
qed

lemma normalizeMainKey_props:
  "normalizeMainKey v \<noteq> []
   \<and> toLowerCase (normalizeMainKey v) = normalizeMainKey v
   \<and> \<not> is_space (last (normalizeMainKey v))"
proof (cases "trim (case v of None \<Rightarrow> [] | Some x \<Rightarrow> x) = []")
  case True
  have "toLowerCase ''main'' = ''main''" using id_char_main by (rule toLowerCase_id)
  moreover have "\<not> is_space (last ''main'')"
    using id_char_main id_char_not_space by simp
  ultimately show ?thesis using True
    by (simp add: normalizeMainKey_def DEFAULT_MAIN_KEY_def)
next
  case False
  let ?t = "trim (case v of None \<Rightarrow> [] | Some x \<Rightarrow> x)"
  have "last (toLowerCase ?t) = lower_char (last ?t)"
    using False by (simp add: toLowerCase_def last_map)
  then have "\<not> is_space (last (toLowerCase ?t))"
    using trim_last [OF False] by (simp add: lower_char_space)
  then show ?thesis using False
    by (simp add: normalizeMainKey_def toLowerCase_idem) (simp add: toLowerCase_def)
qed

lemma parseAgent_built:
  assumes "aid \<noteq> []" "CHR '':'' \<notin> set aid" "r \<noteq> []"
  shows "parseAgentSessionKey (''agent:'' @ aid @ '':'' @ r) = Some (aid, r)"
  using assms takeWhile_colon [of aid r]
  by (simp add: parseAgentSessionKey_def startsWith_def Let_def)

text \<open>
  Claim C9. For every tenant id matching \<open>^[a-z0-9][a-z0-9_-]{0,31}$\<close>, every agent
  id and every optional main key, parsing the built key succeeds:
  \<open>parseTenantSessionKey (buildTenantSessionKey tenantId agentId mainKey)\<close> is a
  result whose tenant id is the lowercased tenant id (the tenant id itself), whose agent
  id is \<open>normalizeAgentId agentId\<close> and whose rest is the normalized main key, which
  is \<open>main\<close> when none is given.
\<close>

theorem C9_build_parse_roundtrip:
  assumes "isValidTenantId tid"
  shows "parseTenantSessionKey (buildTenantSessionKey tid agentId mainKey)
    = Some \<lparr>p_tenantId = toLowerCase tid,
            p_agentKey = buildAgentMainSessionKey agentId mainKey,
            p_agentId = normalizeAgentId (Some agentId),
            p_rest = normalizeMainKey mainKey\<rparr>
    \<and> toLowerCase tid = tid"
proof -
  define aid where "aid = normalizeAgentId (Some agentId)"
  define mk where "mk = normalizeMainKey mainKey"
  define ak where "ak = ''agent:'' @ aid @ '':'' @ mk"
  have tidc: "\<forall>c \<in> set tid. id_char c" and tne: "tid \<noteq> []"
    using valid_id_chars [OF assms] by auto
  have tcolon: "CHR '':'' \<notin> set tid" using assms by (rule valid_id_no_colon)
  have tl: "toLowerCase tid = tid" using tidc by (rule toLowerCase_id)
  have "\<not> is_space (hd tid)" "\<not> is_space (last tid)"
    using tidc tne id_char_not_space by (auto simp: hd_in_set)
  then have tt: "trim tid = tid" using tne by (simp add: trim_id)
  have aidp: "aid \<noteq> []" "\<forall>c \<in> set aid. id_char c"
    using normalizeAgentId_chars [of "Some agentId"] by (auto simp: aid_def)
  have acolon: "CHR '':'' \<notin> set aid" using aidp(2) id_char_not_sep by blast
  have al: "toLowerCase aid = aid" using aidp(2) by (rule toLowerCase_id)
  have mkp: "mk \<noteq> []" "toLowerCase mk = mk" "\<not> is_space (last mk)"
    using normalizeMainKey_props [of mainKey] by (auto simp: mk_def)
  have akne: "ak \<noteq> []" by (simp add: ak_def)
  have akl: "toLowerCase ak = ak"
    using al mkp(2) by (simp add: ak_def toLowerCase_append) (simp add: toLowerCase_def lower_char_def)
  have key: "buildTenantSessionKey tid agentId mainKey = ''tenant:'' @ tid @ '':'' @ ak"
    by (simp add: buildTenantSessionKey_def buildAgentMainSessionKey_def TENANT_KEY_PREFIX_def
        tl tt ak_def aid_def mk_def)
  have "last (''tenant:'' @ tid @ '':'' @ ak) = last mk"
    using mkp(1) by (simp add: ak_def)
  moreover have "\<not> is_space (hd (''tenant:'' @ tid @ '':'' @ ak))"
    by (simp add: is_space_def)
  ultimately have ktrim: "trim (''tenant:'' @ tid @ '':'' @ ak) = ''tenant:'' @ tid @ '':'' @ ak"
    using mkp(3) by (intro trim_id) simp_all
  have klow: "toLowerCase (''tenant:'' @ tid @ '':'' @ ak) = ''tenant:'' @ tid @ '':'' @ ak"
    using tl akl by (simp add: toLowerCase_append) (simp add: toLowerCase_def lower_char_def)
  have tw: "takeWhile (\<lambda>c. c \<noteq> CHR '':'') (tid @ CHR '':'' # ak) = tid"
    using tcolon by (rule takeWhile_colon)
  have pa: "parseAgentSessionKey ak = Some (aid, mk)"
    unfolding ak_def using aidp(1) acolon mkp(1) by (rule parseAgent_built)
  have "parseTenantSessionKey (''tenant:'' @ tid @ '':'' @ ak)
      = Some \<lparr>p_tenantId = tid, p_agentKey = ak, p_agentId = aid, p_rest = mk\<rparr>"
    unfolding parseTenantSessionKey_def ktrim klow
    using tne akne tw pa by (simp add: startsWith_def TENANT_KEY_PREFIX_def Let_def)
  then show ?thesis
    unfolding key using tl by (simp add: ak_def aid_def mk_def buildAgentMainSessionKey_def)
qed

lemma demo_valid: "isValidTenantId ''demo''"
  by code_simp

lemma demo_agent: "normalizeAgentId (Some ''Beta'') = ''beta''"
  by code_simp

lemma demo_main_key: "normalizeMainKey (Some '' Main:One '') = ''main:one''"
  by code_simp

lemma demo_lower: "toLowerCase ''demo'' = ''demo''"
  by code_simp

lemma demo_agent_key: "buildAgentMainSessionKey ''Beta'' (Some '' Main:One '') = ''agent:beta:main:one''"
  by code_simp

theorem C9_build_parse_roundtrip_witness:
  "parseTenantSessionKey (buildTenantSessionKey ''demo'' ''Beta'' (Some '' Main:One ''))
    = Some \<lparr>p_tenantId = ''demo'', p_agentKey = ''agent:beta:main:one'',
            p_agentId = ''beta'', p_rest = ''main:one''\<rparr>"
  using C9_build_parse_roundtrip [OF demo_valid, of "''Beta''" "Some '' Main:One ''"]
  unfolding demo_agent demo_main_key demo_lower demo_agent_key by simp

section \<open>Session-key scoping: a foreign tenant prefix\<close>

text \<open>
  Claim C3. For every session key \<open>S\<close> that starts with \<open>tenant:Y:\<close>, where \<open>Y\<close>
  is the text between the first two colons, and every authenticated tenant id \<open>X\<close>
  other than \<open>Y\<close>, \<open>scopeSessionKeyToTenant\<close> returns an error whose message contains
  "does not match authenticated tenant", and at the chat-completions surface the key
  yields \<open>403 forbidden\<close> and the agent runner is not invoked.
\<close>

theorem C3_foreign_tenant_prefix:
  assumes "CHR '':'' \<notin> set Y" and "X \<noteq> Y"
  shows "scopeSessionKeyToTenant (''tenant:'' @ Y @ '':'' @ rest) (Some X)
           = Inl ''does not match authenticated tenant''
       \<and> str_includes ''does not match authenticated tenant''
            ''does not match authenticated tenant''
       \<and> chatCompletionsSession (Some X) (''tenant:'' @ Y @ '':'' @ rest)
           = HttpError 403 ''forbidden''"
proof -
  have tw: "takeWhile (\<lambda>c. c \<noteq> CHR '':'') (Y @ CHR '':'' # rest) = Y"
    using assms(1) by (rule takeWhile_colon)
  have sc: "scopeSessionKeyToTenant (''tenant:'' @ Y @ '':'' @ rest) (Some X)
      = Inl ''does not match authenticated tenant''"
    using tw assms(2) by (simp add: scopeSessionKeyToTenant_def startsWith_def)
  have inc: "str_includes ''does not match authenticated tenant''
      ''does not match authenticated tenant''"
    by (rule includes_here) (simp add: startsWith_def)
  show ?thesis using sc inc by (simp add: chatCompletionsSession_def)
qed

theorem C3_foreign_tenant_prefix_witness:
  "scopeSessionKeyToTenant ''tenant:other:agent:beta:openai:custom'' (Some ''tenant-a'')
      = Inl ''does not match authenticated tenant''
   \<and> chatCompletionsSession (Some ''tenant-a'') ''tenant:other:agent:beta:openai:custom''
      = HttpError 403 ''forbidden''"
  using C3_foreign_tenant_prefix [of "''other''" "''tenant-a''" "''agent:beta:openai:custom''"]
  by simp

section \<open>The repository's tests\<close>

text \<open>
  The cases of \<open>server-methods.tenant-isolation.test.ts\<close> and of
  \<open>http-utils.tenant.test.ts\<close>, evaluated on the definitions above.
\<close>

lemma test_blocks_wizard_start:
  "authorizeGatewayMethod ''wizard.start''
      (Some \<lparr>connect = Some \<lparr>role = Some ''operator'',
                 scopes = Some [''operator.read'', ''operator.write'']\<rparr>,
             connId = None, tenantId = Some ''tenant-a''\<rparr>)
    = Some (errorShape INVALID_REQUEST ''method not available for tenant token: wizard.start'')"
  by code_simp

lemma test_blocks_status:
  "authorizeGatewayMethod ''status''
      (Some \<lparr>connect = Some \<lparr>role = Some ''operator'',
                 scopes = Some [''operator.read'', ''operator.write'']\<rparr>,
             connId = None, tenantId = Some ''tenant-a''\<rparr>)
    = Some (errorShape INVALID_REQUEST ''method not available for tenant token: status'')"
  by code_simp

lemma test_allows_terminal_list:
  "authorizeGatewayMethod ''terminal.list''
      (Some \<lparr>connect = Some \<lparr>role = Some ''operator'',
                 scopes = Some [''operator.read'', ''operator.write'']\<rparr>,
             connId = None, tenantId = Some ''tenant-a''\<rparr>)
    = None"
  by code_simp

lemma test_admin_unchanged:
  "authorizeGatewayMethod ''config.get''
      (Some \<lparr>connect = Some \<lparr>role = Some ''operator'', scopes = Some [''operator.admin'']\<rparr>,
             connId = None, tenantId = None\<rparr>)
    = None"
  by code_simp

lemma test_scope_adds_prefix:
  "scopeSessionKeyToTenant ''agent:beta:openai:123'' (Some ''tenant-a'')
    = Inr ''tenant:tenant-a:agent:beta:openai:123''"
  by code_simp

lemma test_scope_keeps_matching:
  "scopeSessionKeyToTenant ''tenant:tenant-a:agent:beta:openai:123'' (Some ''tenant-a'')
    = Inr ''tenant:tenant-a:agent:beta:openai:123''"
  by code_simp

lemma test_scope_rejects_mismatch:
  "scopeSessionKeyToTenant ''tenant:tenant-b:agent:beta:openai:123'' (Some ''tenant-a'')
    = Inl ''does not match authenticated tenant''"
  by code_simp

lemma test_scope_without_tenant:
  "scopeSessionKeyToTenant ''agent:beta:openai:123'' None = Inr ''agent:beta:openai:123''"
  by code_simp

end
